theory Spec2Isabelle
  imports Complex_Main
begin

section \<open>Data model\<close>

text \<open>
  The programs work on pandas tables of Python floats. Floats are modelled as real
  numbers; the two special float values that the code can produce, positive infinity and
  NaN, and the one string-valued field of the performance dictionary are kept apart from
  the numbers in the type \<open>pyval\<close>.
\<close>

datatype pyval = Num real | PosInf | NaN | Str string

datatype error = KeyError | IndexError | ValueError

text \<open>
  One row of the price table. The indicator columns \<open>MA<p>\<close> are written by
  \<open>calc_ma\<close> of \<open>lib.technical_indicators\<close>, which is not among the sources at
  hand; its result is taken as given data: \<open>ma b p\<close> is the value of column \<open>MA<p>\<close>
  in row \<open>b\<close>, with \<open>None\<close> for NaN (the warm-up rows of a rolling mean).
\<close>

record bar =
  open_price :: real
  close_price :: real
  ma :: "int \<Rightarrow> real option"

text \<open>
  A table as the simulators return it and as the metrics engine and the harness read it:
  the price rows and the columns that the code adds. A column that was never created is
  \<open>None\<close>; reading it is a \<open>KeyError\<close>.
\<close>

record frame =
  bars :: "bar list"
  ret_col :: "real list option"
  cus_col :: "real list option"
  position_col :: "int list option"
  BH_col :: "real list option"
  entry_col :: "bool list option"
  exit_col :: "bool list option"

section \<open>Performance metrics engine (performance_analysis.py)\<close>

text \<open>
  Line 34: the realized trade list, the non-zero entries of column \<open>ret\<close> in order
  (\<open>dropna\<close> removes nothing from a column of numbers).
\<close>

definition realized_trades :: "real list \<Rightarrow> real list" where
  "realized_trades ret_series = filter (\<lambda>r. r \<noteq> 0) ret_series"

text \<open>\<open>s.cummax()\<close>: the running maximum, with the maximum so far as accumulator.\<close>

fun cummax_from :: "real \<Rightarrow> real list \<Rightarrow> real list" where
  "cummax_from m [] = []"
| "cummax_from m (x # xs) = max m x # cummax_from (max m x) xs"

fun cummax :: "real list \<Rightarrow> real list" where
  "cummax [] = []"
| "cummax (x # xs) = x # cummax_from x xs"

text \<open>\<open>s.max()\<close> of a pandas series: NaN on the empty series.\<close>

fun series_max :: "real list \<Rightarrow> pyval" where
  "series_max [] = NaN"
| "series_max (x # xs) = Num (fold max xs x)"

text \<open>Lines 40-42: \<open>s = s.cummax() - s; return s.max()\<close>.\<close>

definition maxdrawdown :: "real list \<Rightarrow> pyval" where
  "maxdrawdown s = series_max (map2 (-) (cummax s) s)"

text \<open>
  Lines 94-104: the streak scan. The state is
  (longest win, longest loss, current win, current loss).
\<close>

fun streak_step :: "nat \<times> nat \<times> nat \<times> nat \<Rightarrow> real \<Rightarrow> nat \<times> nat \<times> nat \<times> nat" where
  "streak_step (lw, ll, cw, cl) trade_return =
     (let (cw', cl') =
            (if trade_return > 0 then (cw + 1, 0)
             else if trade_return < 0 then (0, cl + 1)
             else (cw, cl))
      in (max lw cw', max ll cl', cw', cl'))"

definition streaks :: "real list \<Rightarrow> nat \<times> nat" where
  "streaks trades = (case foldl streak_step (0, 0, 0, 0) trades of (lw, ll, cw, cl) \<Rightarrow> (lw, ll))"

text \<open>
  The win rate is the one number of the record that is printed, digit by digit, so the
  double precision arithmetic behind these digits is modelled exactly. \<open>to_double\<close>
  rounds a real number to the nearest double (53 bits, ties to even, subnormal numbers
  included): the number is scaled by a power of two into the range where the doubles are
  the integers, rounded there, and scaled back. The search for the power of two stops at
  the smallest exponent of a normal double, 1022 doublings, and at the largest, 1023
  halvings; numbers of magnitude \<open>2 ^ 1024\<close> and more, which overflow, do not arise
  from a win rate.
\<close>

definition round_half_even :: "real \<Rightarrow> int" where
  "round_half_even x =
     (let f = \<lfloor>x\<rfloor>; d = x - of_int f
      in if d < 1 / 2 then f else if d > 1 / 2 then f + 1 else if even f then f else f + 1)"

fun doublings :: "nat \<Rightarrow> real \<Rightarrow> nat" where
  "doublings 0 x = 0"
| "doublings (Suc fuel) x = (if 1 \<le> x then 0 else Suc (doublings fuel (2 * x)))"

fun halvings :: "nat \<Rightarrow> real \<Rightarrow> nat" where
  "halvings 0 x = 0"
| "halvings (Suc fuel) x = (if x < 2 then 0 else Suc (halvings fuel (x / 2)))"

definition to_double_pos :: "real \<Rightarrow> real" where
  "to_double_pos x =
     (if x = 0 then 0
      else if 1 \<le> x then
        (let k = halvings 1023 x
         in real_of_int (round_half_even (x * 2 ^ 52 / 2 ^ k)) * 2 ^ k / 2 ^ 52)
      else
        (let k = doublings 1022 x
         in real_of_int (round_half_even (x * 2 ^ (k + 52))) / 2 ^ (k + 52)))"

definition to_double :: "real \<Rightarrow> real" where
  "to_double x = (if x < 0 then - to_double_pos (- x) else to_double_pos x)"

text \<open>
  The format specification \<open>.2%\<close> of Python applied to a double: the double times 100,
  a product in double precision, printed in fixed-point notation with two decimals, the
  exact value of the product rounded to them with ties to even, and a percent sign.
\<close>

definition digit_char :: "nat \<Rightarrow> char" where
  "digit_char d = ''0123456789'' ! d"

fun nat_str :: "nat \<Rightarrow> string" where
  "nat_str n = (if n < 10 then [digit_char n] else nat_str (n div 10) @ [digit_char (n mod 10)])"

declare nat_str.simps [simp del]

definition format_pct2 :: "real \<Rightarrow> string" where
  "format_pct2 x =
     (let val = to_double (x * 100);
          n = round_half_even (\<bar>val\<bar> * 100);
          k = nat n
      in (if val < 0 \<and> n \<noteq> 0 then ''-'' else '''') @ nat_str (k div 100) @ ''.'' @
         [digit_char (k mod 100 div 10), digit_char (k mod 10)] @ ''%'')"

text \<open>
  The performance dictionary. Its keys are Chinese labels in the source; the fields are
  named after the local variables that fill them (lines 106-123). The maximum drawdown,
  the win rate and the profit/loss ratio are the entries that are not always a finite
  number.
\<close>

record metrics =
  final_equity :: real
  net_profit :: real
  mdd :: pyval
  total_profit :: real
  total_loss :: real
  total_trades :: nat
  num_winning_trades :: nat
  num_losing_trades :: nat
  win_rate :: pyval
  max_profit_trade :: real
  max_loss_trade :: real
  avg_profit :: real
  avg_loss :: real
  profit_loss_ratio :: pyval
  longest_win_streak :: nat
  longest_loss_streak :: nat

text \<open>
  Lines 73-91 and 94-104: the statistics of a non-empty trade list. The win rate is the
  true division of two Python integers, the double nearest to their quotient.
\<close>

definition trade_stats :: "real \<Rightarrow> pyval \<Rightarrow> real list \<Rightarrow> metrics" where
  "trade_stats last_cus mdd_v trades =
     (let total_trades_v = length trades;
          winning_trades = filter (\<lambda>t. t > 0) trades;
          losing_trades = filter (\<lambda>t. t < 0) trades;
          total_profit_v = sum_list winning_trades;
          total_loss_v = sum_list losing_trades;
          num_winning = length winning_trades;
          num_losing = length losing_trades;
          win_rate_v = to_double (real num_winning / real total_trades_v);
          max_profit = (if winning_trades \<noteq> [] then fold max (tl winning_trades) (hd winning_trades) else 0);
          max_loss = (if losing_trades \<noteq> [] then fold min (tl losing_trades) (hd losing_trades) else 0);
          avg_profit_v = (if num_winning > 0 then total_profit_v / real num_winning else 0);
          avg_loss_v = (if num_losing > 0 then total_loss_v / real num_losing else 0);
          ratio = (if avg_loss_v = 0 then PosInf else Num \<bar>avg_profit_v / avg_loss_v\<bar>);
          (lw, ll) = streaks trades
      in \<lparr>final_equity = last_cus, net_profit = sum_list trades, mdd = mdd_v,
          total_profit = total_profit_v, total_loss = total_loss_v,
          total_trades = total_trades_v, num_winning_trades = num_winning,
          num_losing_trades = num_losing, win_rate = Str (format_pct2 win_rate_v),
          max_profit_trade = max_profit, max_loss_trade = max_loss,
          avg_profit = avg_profit_v, avg_loss = avg_loss_v, profit_loss_ratio = ratio,
          longest_win_streak = lw, longest_loss_streak = ll\<rparr>)"

text \<open>Lines 50-70: the record returned when there is no realized trade.\<close>

definition no_trade_metrics :: "real list \<Rightarrow> pyval \<Rightarrow> metrics" where
  "no_trade_metrics cus_series mdd_v =
     \<lparr>final_equity = (if cus_series \<noteq> [] then last cus_series else 0), net_profit = 0,
      mdd = mdd_v, total_profit = 0, total_loss = 0, total_trades = 0,
      num_winning_trades = 0, num_losing_trades = 0, win_rate = Str ''0.00%'',
      max_profit_trade = 0, max_loss_trade = 0, avg_profit = 0, avg_loss = 0,
      profit_loss_ratio = Num 0, longest_win_streak = 0, longest_loss_streak = 0\<rparr>"

text \<open>
  \<open>calculate_strategy_one_performance\<close>. Reading column \<open>ret\<close> (line 34) or
  \<open>cus\<close> (line 37) of a table that lacks it raises \<open>KeyError\<close>;
  \<open>cus_series.iloc[-1]\<close> (line 107) raises \<open>IndexError\<close> on an empty column.
\<close>

definition calculate_strategy_one_performance :: "frame \<Rightarrow> error + metrics" where
  "calculate_strategy_one_performance df_backtest_output =
     (case ret_col df_backtest_output of
        None \<Rightarrow> Inl KeyError
      | Some ret_series \<Rightarrow>
          (let trades = realized_trades ret_series in
           case cus_col df_backtest_output of
             None \<Rightarrow> Inl KeyError
           | Some cus_series \<Rightarrow>
               (let mdd_v = maxdrawdown cus_series in
                if length trades = 0 then Inr (no_trade_metrics cus_series mdd_v)
                else if cus_series = [] then Inl IndexError
                else Inr (trade_stats (last cus_series) mdd_v trades))))"

section \<open>Strategy simulators (backtest/strategy_two.py, backtest/strategy_three.py)\<close>

text \<open>
  Comparison of two table cells that may be NaN: as in Python, a comparison with NaN is
  false.
\<close>

definition nan_less :: "real option \<Rightarrow> real option \<Rightarrow> bool" where
  "nan_less a b = (case a of None \<Rightarrow> False | Some x \<Rightarrow> (case b of None \<Rightarrow> False | Some y \<Rightarrow> x < y))"

text \<open>
  The variables of the simulation loop: the three locals \<open>position\<close>, \<open>avg_cost\<close>,
  \<open>cum_ret\<close> and the three columns \<open>ret\<close>, \<open>cus\<close>, \<open>position\<close> of the table that
  the loop writes with \<open>df.at[idx, ...]\<close>. Rows are addressed by their position in the
  table: the index labels of a price series are distinct, so that \<open>df.at[df.index[i], c]\<close>
  is the cell of row \<open>i\<close>. Flat is the position 0, long the position 1.
\<close>

record sim =
  position :: int
  avg_cost :: real
  cum_ret :: real
  ret_c :: "real list"
  cus_c :: "real list"
  pos_c :: "int list"

text \<open>Steps two of both simulators: zero columns and zero locals.\<close>

definition sim_init :: "nat \<Rightarrow> sim" where
  "sim_init L = \<lparr>position = 0, avg_cost = 0, cum_ret = 0,
                 ret_c = replicate L 0, cus_c = replicate L 0, pos_c = replicate L 0\<rparr>"

text \<open>The table that a simulator returns when it returns before creating any column.\<close>

definition bare_frame :: "bar list \<Rightarrow> frame" where
  "bare_frame df = \<lparr>bars = df, ret_col = None, cus_col = None, position_col = None,
                     BH_col = None, entry_col = None, exit_col = None\<rparr>"

text \<open>
  The table after the loop, with the buy-and-hold column
  \<open>df["BH"] = df[close] - df[close].iloc[0]\<close>.
\<close>

definition result_frame :: "bar list \<Rightarrow> sim \<Rightarrow> frame" where
  "result_frame df st =
     \<lparr>bars = df, ret_col = Some (ret_c st), cus_col = Some (cus_c st),
      position_col = Some (pos_c st),
      BH_col = Some (map (\<lambda>b. close_price b - close_price (df ! 0)) df),
      entry_col = None, exit_col = None\<rparr>"

subsection \<open>Daily settlement, common to both simulators\<close>

text \<open>
  The last block of both loop bodies (strategy_two.py lines 86-94, strategy_three.py lines
  83-91, the same text): the equity of the day and the position at the end of the day.
\<close>

definition settle :: "bar list \<Rightarrow> nat \<Rightarrow> sim \<Rightarrow> sim" where
  "settle df i st =
     (let row = df ! i;
          st' = (if position st = 1
                 then st\<lparr>cus_c := (cus_c st)[i := cum_ret st + (close_price row - avg_cost st)]\<rparr>
                 else st\<lparr>cus_c := (cus_c st)[i := cum_ret st]\<rparr>)
      in st'\<lparr>pos_c := (pos_c st')[i := position st']\<rparr>)"

subsection \<open>Strategy two: golden cross of two moving averages\<close>

text \<open>Entry block of \<open>backtest_strategy_two\<close> (lines 51-68) at index \<open>i\<close>.\<close>

definition entry_two :: "bar list \<Rightarrow> int \<Rightarrow> int \<Rightarrow> nat \<Rightarrow> sim \<Rightarrow> sim" where
  "entry_two df short_ma_period long_ma_period i st =
     (let prev_row = df ! (i - 1);
          row = df ! i
      in if position st = 0 \<and> i > 1 then
           (let prev_prev_row = df ! (i - 2);
                is_golden_cross =
                  (nan_less (ma prev_prev_row short_ma_period) (ma prev_prev_row long_ma_period) \<and>
                   nan_less (ma prev_row long_ma_period) (ma prev_row short_ma_period))
            in if is_golden_cross then st\<lparr>avg_cost := open_price row, position := 1\<rparr> else st)
         else st)"

text \<open>Exit block (lines 71-83).\<close>

definition exit_two :: "bar list \<Rightarrow> int \<Rightarrow> nat \<Rightarrow> sim \<Rightarrow> sim" where
  "exit_two df short_ma_period i st =
     (let row = df ! i
      in if position st = 1 then
           (let mid_price = (open_price row + close_price row) / 2
            in if nan_less (Some mid_price) (ma row short_ma_period) then
                 (let exit_price = close_price row;
                      ret = exit_price - avg_cost st
                  in st\<lparr>ret_c := (ret_c st)[i := ret], cum_ret := cum_ret st + ret,
                        position := 0, avg_cost := 0\<rparr>)
               else st)
         else st)"

text \<open>The body of the loop: entry, then exit, then settlement.\<close>

definition step_two :: "bar list \<Rightarrow> int \<Rightarrow> int \<Rightarrow> nat \<Rightarrow> sim \<Rightarrow> sim" where
  "step_two df short_ma_period long_ma_period i st =
     settle df i (exit_two df short_ma_period i (entry_two df short_ma_period long_ma_period i st))"

definition backtest_strategy_two :: "bar list \<Rightarrow> int \<Rightarrow> int \<Rightarrow> frame" where
  "backtest_strategy_two df short_ma_period long_ma_period =
     (let L = length df
      in if L < 2 then bare_frame df
         else result_frame df
                (fold (step_two df short_ma_period long_ma_period) [1..<L] (sim_init L)))"

subsection \<open>Strategy three: alignment of three moving averages\<close>

text \<open>Entry block of \<open>backtest_strategy_three\<close> (lines 55-67) at index \<open>i\<close>.\<close>

definition entry_three :: "bar list \<Rightarrow> int \<Rightarrow> int \<Rightarrow> int \<Rightarrow> nat \<Rightarrow> sim \<Rightarrow> sim" where
  "entry_three df ma_short ma_medium ma_long i st =
     (let prev_row = df ! (i - 1);
          row = df ! i
      in if position st = 0 then
           (let is_bullish_alignment =
                  (nan_less (ma prev_row ma_medium) (ma prev_row ma_short) \<and>
                   nan_less (ma prev_row ma_long) (ma prev_row ma_medium))
            in if is_bullish_alignment then st\<lparr>avg_cost := open_price row, position := 1\<rparr> else st)
         else st)"

text \<open>Exit block (lines 70-80).\<close>

definition exit_three :: "bar list \<Rightarrow> int \<Rightarrow> int \<Rightarrow> nat \<Rightarrow> sim \<Rightarrow> sim" where
  "exit_three df ma_short ma_medium i st =
     (let row = df ! i
      in if position st = 1 then
           (if nan_less (ma row ma_short) (ma row ma_medium) then
              (let exit_price = close_price row;
                   ret = exit_price - avg_cost st
               in st\<lparr>ret_c := (ret_c st)[i := ret], cum_ret := cum_ret st + ret,
                     position := 0, avg_cost := 0\<rparr>)
            else st)
         else st)"

definition step_three :: "bar list \<Rightarrow> int \<Rightarrow> int \<Rightarrow> int \<Rightarrow> nat \<Rightarrow> sim \<Rightarrow> sim" where
  "step_three df ma_short ma_medium ma_long i st =
     settle df i (exit_three df ma_short ma_medium i (entry_three df ma_short ma_medium ma_long i st))"

definition backtest_strategy_three :: "bar list \<Rightarrow> int \<Rightarrow> int \<Rightarrow> int \<Rightarrow> frame" where
  "backtest_strategy_three df ma_short ma_medium ma_long =
     (let L = length df
      in if L < 2 then bare_frame df
         else result_frame df
                (fold (step_three df ma_short ma_medium ma_long) [1..<L] (sim_init L)))"

subsection \<open>The two loop bodies as one step with the signals as parameters\<close>

text \<open>
  The signals of the two strategies at index \<open>i\<close>, and the step that both loop bodies
  instantiate: enter at the open price on an entry signal when flat, leave at the close
  price on an exit signal when long, settle.
\<close>

definition golden_cross :: "bar list \<Rightarrow> int \<Rightarrow> int \<Rightarrow> nat \<Rightarrow> bool" where
  "golden_cross df s l i =
     (i > 1 \<and> nan_less (ma (df ! (i - 2)) s) (ma (df ! (i - 2)) l) \<and>
      nan_less (ma (df ! (i - 1)) l) (ma (df ! (i - 1)) s))"

definition below_short :: "bar list \<Rightarrow> int \<Rightarrow> nat \<Rightarrow> bool" where
  "below_short df s i =
     nan_less (Some ((open_price (df ! i) + close_price (df ! i)) / 2)) (ma (df ! i) s)"

definition bullish_alignment :: "bar list \<Rightarrow> int \<Rightarrow> int \<Rightarrow> int \<Rightarrow> nat \<Rightarrow> bool" where
  "bullish_alignment df s m l i =
     (nan_less (ma (df ! (i - 1)) m) (ma (df ! (i - 1)) s) \<and>
      nan_less (ma (df ! (i - 1)) l) (ma (df ! (i - 1)) m))"

definition short_below_medium :: "bar list \<Rightarrow> int \<Rightarrow> int \<Rightarrow> nat \<Rightarrow> bool" where
  "short_below_medium df s m i = nan_less (ma (df ! i) s) (ma (df ! i) m)"

definition enter_long :: "bool \<Rightarrow> bar list \<Rightarrow> nat \<Rightarrow> sim \<Rightarrow> sim" where
  "enter_long signal df i st =
     (if position st = 0 \<and> signal then st\<lparr>avg_cost := open_price (df ! i), position := 1\<rparr> else st)"

definition leave_long :: "bool \<Rightarrow> bar list \<Rightarrow> nat \<Rightarrow> sim \<Rightarrow> sim" where
  "leave_long signal df i st =
     (if position st = 1 \<and> signal
      then st\<lparr>ret_c := (ret_c st)[i := close_price (df ! i) - avg_cost st],
              cum_ret := cum_ret st + (close_price (df ! i) - avg_cost st),
              position := 0, avg_cost := 0\<rparr>
      else st)"

definition trade_step :: "(nat \<Rightarrow> bool) \<Rightarrow> (nat \<Rightarrow> bool) \<Rightarrow> bar list \<Rightarrow> nat \<Rightarrow> sim \<Rightarrow> sim" where
  "trade_step enter leave df i st = settle df i (leave_long (leave i) df i (enter_long (enter i) df i st))"

section \<open>Sensitivity harness (backtest/backtest_adjusted.py)\<close>

text \<open>
  The module \<open>random\<close> of Python holds a hidden generator state. It is made explicit
  as the infinite sequence of raw numbers that the generator is still to deliver; each
  call consumes the head. \<open>randint(a, b)\<close> maps the raw number into the closed range
  from \<open>a\<close> to \<open>b\<close> and raises \<open>ValueError\<close> on an empty range;
  \<open>uniform(a, b)\<close> is \<open>a + (b - a) * random()\<close> with \<open>random()\<close> a fraction
  of 53 bits in the half-open unit interval. Every sequence of outcomes within the ranges
  is the image of some raw sequence.
\<close>

type_synonym rng = "nat \<Rightarrow> nat"

definition rng_tail :: "rng \<Rightarrow> rng" where
  "rng_tail g = (\<lambda>k. g (Suc k))"

definition randint_value :: "int \<times> int \<Rightarrow> nat \<Rightarrow> int" where
  "randint_value bounds r = fst bounds + int (r mod nat (snd bounds - fst bounds + 1))"

definition randint :: "int \<times> int \<Rightarrow> rng \<Rightarrow> (error + int) \<times> rng" where
  "randint bounds g =
     (if snd bounds < fst bounds then (Inl ValueError, g)
      else (Inr (randint_value bounds (g 0)), rng_tail g))"

definition uniform :: "real \<times> real \<Rightarrow> rng \<Rightarrow> real \<times> rng" where
  "uniform bounds g =
     (fst bounds + (snd bounds - fst bounds) * (real (g 0 mod 2 ^ 53) / 2 ^ 53), rng_tail g)"

text \<open>\<open>round(x, 2)\<close>: to two decimals, ties to even.\<close>

definition round2 :: "real \<Rightarrow> real" where
  "round2 x = real_of_int (round_half_even (x * 100)) / 100"

text \<open>
  Lines 58-59: \<open>while bb_p <= ma_p: bb_p = random.randint(*param_ranges['bb_period'])\<close>.
  The loop has no bound on its iterations; \<open>None\<close> is the run that never leaves it.
\<close>

partial_function (option) redraw ::
  "int \<times> int \<Rightarrow> int \<Rightarrow> int \<Rightarrow> rng \<Rightarrow> ((error + int) \<times> rng) option" where
  "redraw bb_range ma_p bb_p g =
     (if bb_p \<le> ma_p then
        (case randint bb_range g of
           (Inl e, g') \<Rightarrow> Some (Inl e, g')
         | (Inr bb_p', g') \<Rightarrow> redraw bb_range ma_p bb_p' g')
      else Some (Inr bb_p, g))"

declare redraw.simps [code]

record param_ranges =
  ma_period_range :: "int \<times> int"
  bb_period_range :: "int \<times> int"
  bb_std_range :: "real \<times> real"
  drop_threshold_range :: "real \<times> real"

text \<open>Lines 43-49: the ranges used when none are given.\<close>

definition default_param_ranges :: param_ranges where
  "default_param_ranges =
     \<lparr>ma_period_range = (3, 15), bb_period_range = (16, 40),
      bb_std_range = (1, 3), drop_threshold_range = (1 / 10, 9 / 10)\<rparr>"

text \<open>
  One row of the result: the drawn parameters and the performance record. The source
  merges two dictionaries with \<open>update\<close>; the row keeps them apart, the keys of a
  performance record being different from the four parameter names.
\<close>

record 'p run =
  ma_period :: int
  bb_period :: int
  bb_std :: real
  drop_threshold :: real
  performance :: 'p

text \<open>
  Lines 73-74: the columns \<open>entry\<close> and \<open>exit\<close>. \<open>shift(1)\<close> has NaN in its first
  row, where both comparisons are false.
\<close>

definition position_changes :: "int \<Rightarrow> int \<Rightarrow> int list \<Rightarrow> bool list" where
  "position_changes now before ps =
     map (\<lambda>i. ps ! i = now \<and> 0 < i \<and> ps ! (i - 1) = before) [0..<length ps]"

text \<open>
  The body of the loop over the trials (lines 56-85). The simulator and the metrics
  engine are the capabilities \<open>backtest_func\<close> and \<open>performance_func\<close>.
\<close>

definition trial ::
  "bar list \<Rightarrow> (bar list \<Rightarrow> int \<Rightarrow> int \<Rightarrow> real \<Rightarrow> real \<Rightarrow> error + frame) \<Rightarrow> (frame \<Rightarrow> error + 'p) \<Rightarrow>
   param_ranges \<Rightarrow> rng \<Rightarrow> ((error + 'p run) \<times> rng) option" where
  "trial df_original backtest_func performance_func pr g =
     (case randint (ma_period_range pr) g of
        (Inl e, g1) \<Rightarrow> Some (Inl e, g1)
      | (Inr ma_p, g1) \<Rightarrow>
     (case randint (bb_period_range pr) g1 of
        (Inl e, g2) \<Rightarrow> Some (Inl e, g2)
      | (Inr bb_p0, g2) \<Rightarrow>
     (case redraw (bb_period_range pr) ma_p bb_p0 g2 of
        None \<Rightarrow> None
      | Some (Inl e, g3) \<Rightarrow> Some (Inl e, g3)
      | Some (Inr bb_p, g3) \<Rightarrow>
     (case uniform (bb_std_range pr) g3 of (bb_s, g4) \<Rightarrow>
     (case uniform (drop_threshold_range pr) g4 of (drop_t, g5) \<Rightarrow>
     (case backtest_func df_original ma_p bb_p bb_s drop_t of
        Inl e \<Rightarrow> Some (Inl e, g5)
      | Inr df_result \<Rightarrow>
     (case position_col df_result of
        None \<Rightarrow> Some (Inl KeyError, g5)
      | Some ps \<Rightarrow>
     (case performance_func
             (df_result\<lparr>entry_col := Some (position_changes 1 0 ps),
                         exit_col := Some (position_changes 0 1 ps)\<rparr>) of
        Inl e \<Rightarrow> Some (Inl e, g5)
      | Inr perf \<Rightarrow>
          Some (Inr \<lparr>ma_period = ma_p, bb_period = bb_p, bb_std = round2 bb_s,
                     drop_threshold = round2 drop_t, performance = perf\<rparr>, g5)))))))))"

text \<open>The loop over \<open>range(iterations)\<close>, appending one row per trial.\<close>

fun trials ::
  "nat \<Rightarrow> bar list \<Rightarrow> (bar list \<Rightarrow> int \<Rightarrow> int \<Rightarrow> real \<Rightarrow> real \<Rightarrow> error + frame) \<Rightarrow> (frame \<Rightarrow> error + 'p) \<Rightarrow>
   param_ranges \<Rightarrow> rng \<Rightarrow> 'p run list \<Rightarrow> (error + 'p run list) option" where
  "trials 0 df_original backtest_func performance_func pr g results_list = Some (Inr results_list)"
| "trials (Suc n) df_original backtest_func performance_func pr g results_list =
     (case trial df_original backtest_func performance_func pr g of
        None \<Rightarrow> None
      | Some (Inl e, g') \<Rightarrow> Some (Inl e)
      | Some (Inr row, g') \<Rightarrow>
          trials n df_original backtest_func performance_func pr g' (results_list @ [row]))"

text \<open>
  \<open>sensitivity_analysis\<close>: \<open>None\<close> when the call never returns, \<open>Some (Inl e)\<close>
  when it raises, \<open>Some (Inr rows)\<close> when it returns the table of rows.
\<close>

definition sensitivity_analysis ::
  "bar list \<Rightarrow> (bar list \<Rightarrow> int \<Rightarrow> int \<Rightarrow> real \<Rightarrow> real \<Rightarrow> error + frame) \<Rightarrow> (frame \<Rightarrow> error + 'p) \<Rightarrow>
   param_ranges option \<Rightarrow> int \<Rightarrow> rng \<Rightarrow> (error + 'p run list) option" where
  "sensitivity_analysis df_original backtest_func performance_func param_ranges iterations g =
     trials (nat iterations) df_original backtest_func performance_func
       (case param_ranges of None \<Rightarrow> default_param_ranges | Some pr \<Rightarrow> pr) g []"

section \<open>Notions of the properties, and tables for their instances\<close>

subsection \<open>Drawdown as the specification defines it\<close>

text \<open>
  The drawdown of the specification: at each step, the running maximum of the equity up
  to that step minus the equity at that step; the maximum drawdown is the largest of
  these.
\<close>

definition running_max :: "real list \<Rightarrow> nat \<Rightarrow> real" where
  "running_max s i = Max (set (take (Suc i) s))"

definition drawdown_at :: "real list \<Rightarrow> nat \<Rightarrow> real" where
  "drawdown_at s i = running_max s i - s ! i"

definition max_drawdown_spec :: "real list \<Rightarrow> real" where
  "max_drawdown_spec s = Max (set (map (drawdown_at s) [0..<length s]))"

subsection \<open>Averages of the winning and of the losing trades\<close>

text \<open>
  The average of a list of trades, and 0 for the empty list: the average win is the
  one of the positive trades of the trade list, the average loss the one of the negative
  trades.
\<close>

definition mean_or_zero :: "real list \<Rightarrow> real" where
  "mean_or_zero xs = (if xs = [] then 0 else sum_list xs / real (length xs))"

subsection \<open>The entry price of an open position\<close>

text \<open>
  The entry step of the position that is open at the end of a position column: the last
  step that ends long after a step that ended flat. The entry price of the open position
  is the open price of that step.
\<close>

definition entry_step_upto :: "nat \<Rightarrow> int list \<Rightarrow> nat" where
  "entry_step_upto n ps = fold (\<lambda>i e. if ps ! i = 1 \<and> ps ! (i - 1) = 0 then i else e) [1..<n] 0"

definition entry_step :: "int list \<Rightarrow> nat" where
  "entry_step ps = entry_step_upto (length ps) ps"

subsection \<open>The invariant of the simulation loop\<close>

text \<open>
  What holds of the loop variables before the step \<open>n\<close>, that is after the steps
  \<open>1, ..., n - 1\<close>: the columns keep the length of the table, the position is flat
  or long, the realized total is the sum of the column \<open>ret\<close>, whose rows from \<open>n\<close>
  on are still zero, the row \<open>n - 1\<close> holds the position and the equity of the
  variables, and the cost of a long position is the open price of its entry step.
\<close>

definition sim_inv :: "bar list \<Rightarrow> nat \<Rightarrow> sim \<Rightarrow> bool" where
  "sim_inv df n st \<longleftrightarrow>
     length (ret_c st) = length df \<and> length (cus_c st) = length df \<and>
     length (pos_c st) = length df \<and>
     (position st = 0 \<or> position st = 1) \<and>
     cum_ret st = sum_list (ret_c st) \<and>
     (\<forall>j. n \<le> j \<longrightarrow> j < length df \<longrightarrow> ret_c st ! j = 0) \<and>
     pos_c st ! (n - 1) = position st \<and>
     cus_c st ! (n - 1) =
       cum_ret st + (if position st = 1 then close_price (df ! (n - 1)) - avg_cost st else 0) \<and>
     (position st = 1 \<longrightarrow> avg_cost st = open_price (df ! entry_step_upto n (pos_c st)))"

subsection \<open>Shapes of tables\<close>

text \<open>A table that carries just the two columns that the metrics engine reads.\<close>

definition columns_frame :: "real list \<Rightarrow> real list \<Rightarrow> frame" where
  "columns_frame rs cs = \<lparr>bars = [], ret_col = Some rs, cus_col = Some cs, position_col = None,
                           BH_col = None, entry_col = None, exit_col = None\<rparr>"

text \<open>
  A table that carries a whole trajectory for the price rows \<open>df\<close>: the three
  columns, one entry per row.
\<close>

definition full_trajectory :: "bar list \<Rightarrow> frame \<Rightarrow> bool" where
  "full_trajectory df t =
     (case ret_col t of None \<Rightarrow> False | Some rs \<Rightarrow>
      case cus_col t of None \<Rightarrow> False | Some cs \<Rightarrow>
      case position_col t of None \<Rightarrow> False | Some ps \<Rightarrow>
        length rs = length df \<and> length cs = length df \<and> length ps = length df)"

text \<open>
  The law of the final equity: the equity of the last row is the sum of the realized
  trades plus, when the last row ends long, the last close price minus the entry price.
\<close>

definition final_equity_law :: "bar list \<Rightarrow> frame \<Rightarrow> bool" where
  "final_equity_law df t =
     (case ret_col t of None \<Rightarrow> False | Some rs \<Rightarrow>
      case cus_col t of None \<Rightarrow> False | Some cs \<Rightarrow>
      case position_col t of None \<Rightarrow> False | Some ps \<Rightarrow>
        length cs = length df \<and> length ps = length df \<and>
        (last ps = 0 \<or> last ps = 1) \<and>
        last cs = sum_list (realized_trades rs) +
                  (if last ps = 1 then close_price (last df) - open_price (df ! entry_step ps)
                   else 0))"

subsection \<open>Example tables and ranges\<close>

text \<open>
  Price tables for the instances below: a row from its open price, its close price and
  its moving averages by period. The averages are those of the close prices.
\<close>

definition bar_of :: "real \<Rightarrow> real \<Rightarrow> (int \<times> real) list \<Rightarrow> bar" where
  "bar_of opn cls mas = \<lparr>open_price = opn, close_price = cls, ma = map_of mas\<rparr>"

definition cross_series :: "bar list" where
  "cross_series =
     [bar_of 3 3 [(1, 3)], bar_of 1 1 [(1, 1), (2, 2)],
      bar_of 4 4 [(1, 4), (2, 5 / 2)], bar_of 1 2 [(1, 2), (2, 3)]]"

definition aligned_series :: "bar list" where
  "aligned_series =
     [bar_of 1 1 [(1, 1)], bar_of 2 2 [(1, 2), (2, 3 / 2)],
      bar_of 4 4 [(1, 4), (2, 3), (3, 7 / 3)], bar_of 3 1 [(1, 1), (2, 5 / 2), (3, 7 / 3)]]"

definition late_cross_series :: "bar list" where
  "late_cross_series =
     [bar_of 3 3 [(1, 3)], bar_of 1 1 [(1, 1), (2, 2)], bar_of 4 4 [(1, 4), (2, 5 / 2)],
      bar_of 1 2 [(1, 2), (2, 3)], bar_of 2 5 [(1, 5), (2, 7 / 2)], bar_of 3 1 [(1, 1), (2, 3)]]"


definition open_cross_series :: "bar list" where
  "open_cross_series =
     [bar_of 3 3 [(1, 3)], bar_of 1 1 [(1, 1), (2, 2)],
      bar_of 4 4 [(1, 4), (2, 5 / 2)], bar_of 6 5 [(1, 5), (2, 9 / 2)]]"

definition open_aligned_series :: "bar list" where
  "open_aligned_series =
     [bar_of 1 1 [(1, 1)], bar_of 2 2 [(1, 2), (2, 3 / 2)],
      bar_of 4 4 [(1, 4), (2, 3), (3, 7 / 3)], bar_of 3 5 [(1, 5), (2, 9 / 2), (3, 11 / 3)]]"

text \<open>The three columns of a trajectory, side by side.\<close>

definition trajectory :: "frame \<Rightarrow> real list option \<times> real list option \<times> int list option" where
  "trajectory t = (ret_col t, cus_col t, position_col t)"

text \<open>Strategy two behind the interface of the harness, the two periods as its periods.\<close>

definition crossover_capability :: "bar list \<Rightarrow> int \<Rightarrow> int \<Rightarrow> real \<Rightarrow> real \<Rightarrow> error + frame" where
  "crossover_capability df ma_p bb_p bb_s drop_t = Inr (backtest_strategy_two df ma_p bb_p)"

text \<open>Ranges for the instances below: one that can be satisfied, one that cannot.\<close>

definition narrow_ranges :: param_ranges where
  "narrow_ranges = \<lparr>ma_period_range = (1, 2), bb_period_range = (1, 3),
                     bb_std_range = (1, 3), drop_threshold_range = (1 / 10, 9 / 10)\<rparr>"

definition stuck_ranges :: param_ranges where
  "stuck_ranges = \<lparr>ma_period_range = (5, 5), bb_period_range = (3, 4),
                    bb_std_range = (1, 3), drop_threshold_range = (1 / 10, 9 / 10)\<rparr>"

section \<open>Verification: metrics engine\<close>

subsection \<open>Maximum drawdown\<close>

lemma length_cummax_from: "length (cummax_from m xs) = length xs"
  by (induction xs arbitrary: m) simp_all

lemma length_cummax: "length (cummax xs) = length xs"
  by (cases xs) (simp_all add: length_cummax_from)

lemma cummax_from_nth:
  "i < length xs \<Longrightarrow> cummax_from m xs ! i = max m (Max (set (take (Suc i) xs)))"
proof (induction xs arbitrary: m i)
  case Nil
  then show ?case by simp
next
  case (Cons x xs)
  show ?case
  proof (cases i)
    case 0
    then show ?thesis by simp
  next
    case (Suc j)
    with Cons.prems have j: "j < length xs" by simp
    then have ne: "set (take (Suc j) xs) \<noteq> {}" by (cases xs) auto
    from Cons.IH [OF j] Suc ne show ?thesis
      by (simp add: max.assoc)
  qed
qed

lemma cummax_nth: "i < length s \<Longrightarrow> cummax s ! i = running_max s i"
proof (cases s)
  case Nil
  assume "i < length s"
  with Nil show ?thesis by simp
next
  case (Cons x xs)
  assume i: "i < length s"
  show ?thesis
  proof (cases i)
    case 0
    with Cons show ?thesis by (simp add: running_max_def)
  next
    case (Suc j)
    with i Cons have j: "j < length xs" by simp
    then have ne: "set (take (Suc j) xs) \<noteq> {}" by (cases xs) auto
    from cummax_from_nth [OF j, of x] Suc Cons ne show ?thesis
      by (simp add: running_max_def)
  qed
qed

lemma drawdown_series: "map2 (-) (cummax s) s = map (drawdown_at s) [0..<length s]"
  by (rule nth_equalityI) (simp_all add: length_cummax cummax_nth drawdown_at_def)

lemma maxdrawdown_spec: "s \<noteq> [] \<Longrightarrow> maxdrawdown s = Num (max_drawdown_spec s)"
proof -
  assume "s \<noteq> []"
  then obtain d ds where dd: "map (drawdown_at s) [0..<length s] = d # ds"
    by (cases "map (drawdown_at s) [0..<length s]") auto
  have "fold max ds d = Max (set (d # ds))" by (simp only: Max.set_eq_fold)
  with dd show ?thesis
    by (simp add: maxdrawdown_def drawdown_series max_drawdown_spec_def)
qed

lemma drawdown_at_nonneg: "i < length s \<Longrightarrow> 0 \<le> drawdown_at s i"
proof -
  assume i: "i < length s"
  then have "s ! i \<in> set (take (Suc i) s)"
    by (metis in_set_conv_nth length_take lessI min_less_iff_conj nth_take)
  then have "s ! i \<le> Max (set (take (Suc i) s))" by simp
  then show ?thesis by (simp add: drawdown_at_def running_max_def)
qed

lemma max_drawdown_spec_nonneg: "s \<noteq> [] \<Longrightarrow> 0 \<le> max_drawdown_spec s"
proof -
  assume ne: "s \<noteq> []"
  then have "drawdown_at s 0 \<in> set (map (drawdown_at s) [0..<length s])" by auto
  then have "drawdown_at s 0 \<le> max_drawdown_spec s"
    unfolding max_drawdown_spec_def by (intro Max_ge) simp_all
  moreover from ne have "0 \<le> drawdown_at s 0" by (intro drawdown_at_nonneg) simp
  ultimately show ?thesis by linarith
qed

lemma drawdown_at_sorted: "sorted s \<Longrightarrow> i < length s \<Longrightarrow> drawdown_at s i = 0"
proof -
  assume srt: "sorted s" and i: "i < length s"
  have mem: "s ! i \<in> set (take (Suc i) s)"
    using i by (metis in_set_conv_nth length_take lessI min_less_iff_conj nth_take)
  have "\<forall>x \<in> set (take (Suc i) s). x \<le> s ! i"
  proof
    fix x assume "x \<in> set (take (Suc i) s)"
    then obtain j where "j < Suc i" "j < length s" "x = s ! j"
      by (auto simp: in_set_conv_nth)
    with srt i show "x \<le> s ! i" by (auto intro: sorted_nth_mono)
  qed
  with mem have "Max (set (take (Suc i) s)) = s ! i"
    by (intro Max_eqI) auto
  then show ?thesis by (simp add: drawdown_at_def running_max_def)
qed

lemma max_drawdown_spec_sorted: "sorted s \<Longrightarrow> s \<noteq> [] \<Longrightarrow> max_drawdown_spec s = 0"
proof -
  assume srt: "sorted s" and ne: "s \<noteq> []"
  have "map (drawdown_at s) [0..<length s] = map (\<lambda>_. 0) [0..<length s]"
    by (rule map_cong) (simp_all add: drawdown_at_sorted [OF srt])
  moreover from ne have "set (map (\<lambda>_. 0::real) [0..<length s]) = {0}"
    by (cases s) (auto simp: image_constant_conv)
  ultimately show ?thesis by (simp add: max_drawdown_spec_def)
qed

subsection \<open>The performance record\<close>

lemma calculate_on_columns:
  assumes "ret_col f = Some rs" "cus_col f = Some cs" "length cs = length rs"
  shows "calculate_strategy_one_performance f =
           Inr (if realized_trades rs = [] then no_trade_metrics cs (maxdrawdown cs)
                else trade_stats (last cs) (maxdrawdown cs) (realized_trades rs))"
proof -
  have "cs = [] \<Longrightarrow> realized_trades rs = []"
    using assms(3) by (simp add: realized_trades_def)
  with assms(1,2) show ?thesis
    by (auto simp: calculate_strategy_one_performance_def Let_def)
qed

lemma sum_list_negative:
  "xs \<noteq> [] \<Longrightarrow> \<forall>x \<in> set xs. x < (0::real) \<Longrightarrow> sum_list xs < 0"
proof (induction xs)
  case Nil
  then show ?case by simp
next
  case (Cons x xs)
  then show ?case by (cases xs) (auto intro: add_neg_neg)
qed

lemma trade_stats_avg_loss:
  "avg_loss (trade_stats c m ts) =
     (if filter (\<lambda>t. t < 0) ts \<noteq> []
      then sum_list (filter (\<lambda>t. t < 0) ts) / real (length (filter (\<lambda>t. t < 0) ts)) else 0)"
  by (simp add: trade_stats_def Let_def split: prod.splits)

lemma trade_stats_avg_profit:
  "avg_profit (trade_stats c m ts) =
     (if filter (\<lambda>t. t > 0) ts \<noteq> []
      then sum_list (filter (\<lambda>t. t > 0) ts) / real (length (filter (\<lambda>t. t > 0) ts)) else 0)"
  by (simp add: trade_stats_def Let_def split: prod.splits)

lemma trade_stats_ratio_def:
  "profit_loss_ratio (trade_stats c m ts) =
     (if avg_loss (trade_stats c m ts) = 0 then PosInf
      else Num \<bar>avg_profit (trade_stats c m ts) / avg_loss (trade_stats c m ts)\<bar>)"
  by (simp add: trade_stats_def Let_def split: prod.splits)

lemma avg_loss_zero_iff:
  "avg_loss (trade_stats c m ts) = 0 \<longleftrightarrow> filter (\<lambda>t. t < 0) ts = []"
proof (cases "filter (\<lambda>t. t < 0) ts = []")
  case True
  then show ?thesis by (simp add: trade_stats_avg_loss)
next
  case False
  then have "sum_list (filter (\<lambda>t. t < 0) ts) < 0"
    by (intro sum_list_negative) auto
  with False show ?thesis by (simp add: trade_stats_avg_loss)
qed

lemma trade_stats_ratio:
  "profit_loss_ratio (trade_stats c m ts) =
     (if filter (\<lambda>t. t < 0) ts = [] then PosInf
      else Num \<bar>avg_profit (trade_stats c m ts) / avg_loss (trade_stats c m ts)\<bar>)"
  by (simp only: trade_stats_ratio_def avg_loss_zero_iff)

lemma realized_trades_signs:
  "t \<in> set (realized_trades rs) \<Longrightarrow> t > 0 \<or> t < 0"
  by (auto simp: realized_trades_def)

lemma trade_stats_counts:
  "total_trades (trade_stats c m ts) = length ts"
  "num_winning_trades (trade_stats c m ts) = length (filter (\<lambda>t. t > 0) ts)"
  "num_losing_trades (trade_stats c m ts) = length (filter (\<lambda>t. t < 0) ts)"
  by (simp_all add: trade_stats_def Let_def split: prod.splits)

lemma trade_stats_sums:
  "net_profit (trade_stats c m ts) = sum_list ts"
  "total_profit (trade_stats c m ts) = sum_list (filter (\<lambda>t. t > 0) ts)"
  "total_loss (trade_stats c m ts) = sum_list (filter (\<lambda>t. t < 0) ts)"
  by (simp_all add: trade_stats_def Let_def split: prod.splits)

lemma trade_stats_curve:
  "final_equity (trade_stats c m ts) = c"
  "mdd (trade_stats c m ts) = m"
  by (simp_all add: trade_stats_def Let_def split: prod.splits)

lemma trade_stats_extremes:
  "max_profit_trade (trade_stats c m ts) =
     (if filter (\<lambda>t. t > 0) ts \<noteq> []
      then fold max (tl (filter (\<lambda>t. t > 0) ts)) (hd (filter (\<lambda>t. t > 0) ts)) else 0)"
  "max_loss_trade (trade_stats c m ts) =
     (if filter (\<lambda>t. t < 0) ts \<noteq> []
      then fold min (tl (filter (\<lambda>t. t < 0) ts)) (hd (filter (\<lambda>t. t < 0) ts)) else 0)"
  by (simp_all add: trade_stats_def Let_def split: prod.splits)

lemma trade_stats_win_rate:
  "win_rate (trade_stats c m ts) =
     Str (format_pct2 (to_double (real (length (filter (\<lambda>t. t > 0) ts)) / real (length ts))))"
  by (simp add: trade_stats_def Let_def split: prod.splits)

lemma trade_stats_streaks:
  "longest_win_streak (trade_stats c m ts) = fst (streaks ts)"
  "longest_loss_streak (trade_stats c m ts) = snd (streaks ts)"
  by (simp_all add: trade_stats_def Let_def split: prod.splits)

lemma scenario_winners: "filter (\<lambda>t. t > 0) [5, -2, 3, -1, -4, 2 :: real] = [5, 3, 2]"
  by simp

lemma scenario_losers: "filter (\<lambda>t. t < 0) [5, -2, 3, -1, -4, 2 :: real] = [-2, -1, -4]"
  by simp

lemma scenario_streaks: "streaks [5, -2, 3, -1, -4, 2] = (1, 2)"
  by (simp add: streaks_def)

lemma doublings_unfold:
  "0 < fuel \<Longrightarrow> doublings fuel x = (if 1 \<le> x then 0 else Suc (doublings (fuel - 1) (2 * x)))"
  by (cases fuel) simp_all

lemma halvings_unfold:
  "0 < fuel \<Longrightarrow> halvings fuel x = (if x < 2 then 0 else Suc (halvings (fuel - 1) (x / 2)))"
  by (cases fuel) simp_all

lemmas double_eval =
  format_pct2_def to_double_def to_double_pos_def round_half_even_def doublings_unfold
  halvings_unfold nat_str.simps digit_char_def Let_def

lemma to_double_half: "to_double (1 / 2) = 1 / 2"
  by (simp add: double_eval)

lemma format_pct2_half: "format_pct2 (1 / 2) = ''50.00%''"
  by (simp add: double_eval)

text \<open>
  Two quotients whose percentage lies, as a real number, halfway between two numbers of
  two decimals: the doubles fall below the one and above the other.
\<close>

lemma format_pct2_23_160: "format_pct2 (to_double (23 / 160)) = ''14.37%''"
  by (simp add: double_eval)

lemma format_pct2_49_160: "format_pct2 (to_double (49 / 160)) = ''30.63%''"
  by (simp add: double_eval)

lemma round_half_even_bounds: "\<lfloor>x\<rfloor> \<le> round_half_even x" "round_half_even x \<le> \<lfloor>x\<rfloor> + 1"
  by (simp_all add: round_half_even_def Let_def)

lemma to_double_zero: "to_double 0 = 0"
  by (simp add: to_double_def to_double_pos_def)

lemma to_double_one: "to_double 1 = 1"
  by (simp add: to_double_def to_double_pos_def round_half_even_def halvings_unfold)

lemma to_double_unit_interval:
  assumes "0 \<le> x" "x \<le> 1"
  shows "0 \<le> to_double x" and "to_double x \<le> 1"
proof -
  have "0 \<le> to_double x \<and> to_double x \<le> 1"
  proof (cases "x = 0 \<or> x = 1")
    case True
    then show ?thesis using to_double_zero to_double_one by auto
  next
    case False
    with assms have x: "0 < x" "x < 1" by auto
    define k where "k = doublings 1022 x"
    define y where "y = x * 2 ^ (k + 52)"
    from x have y: "0 < y" "y < 2 ^ (k + 52)" by (simp_all add: y_def)
    from y(1) have "0 \<le> \<lfloor>y\<rfloor>" by simp
    with round_half_even_bounds(1) [of y] have lo: "0 \<le> round_half_even y" by linarith
    from y(2) have "\<lfloor>y\<rfloor> < 2 ^ (k + 52)" by (simp add: floor_less_iff)
    with round_half_even_bounds(2) [of y] have hi: "round_half_even y \<le> 2 ^ (k + 52)"
      by linarith
    then have "real_of_int (round_half_even y) \<le> real_of_int (2 ^ (k + 52))"
      by (simp only: of_int_le_iff)
    then have hi': "real_of_int (round_half_even y) \<le> 2 ^ (k + 52)" by simp
    from x have "to_double x = real_of_int (round_half_even y) / 2 ^ (k + 52)"
      unfolding to_double_def to_double_pos_def k_def y_def Let_def by simp
    with lo hi' show ?thesis by (simp add: divide_le_eq)
  qed
  then show "0 \<le> to_double x" and "to_double x \<le> 1" by simp_all
qed

lemma trade_stats_scenario:
  fixes c m
  defines "r \<equiv> trade_stats c m [5, -2, 3, -1, -4, 2]"
  shows "total_trades r = 6" "num_winning_trades r = 3" "total_profit r = 10"
    "num_losing_trades r = 3" "total_loss r = -7" "win_rate r = Str ''50.00%''"
    "max_profit_trade r = 5" "max_loss_trade r = -4" "avg_profit r = 10 / 3"
    "avg_loss r = - 7 / 3" "profit_loss_ratio r = Num (10 / 7)"
    "longest_win_streak r = 1" "longest_loss_streak r = 2"
proof -
  show "total_trades r = 6" "num_winning_trades r = 3" "num_losing_trades r = 3"
    unfolding r_def trade_stats_counts scenario_winners scenario_losers by simp_all
  show "total_profit r = 10" "total_loss r = -7"
    unfolding r_def trade_stats_sums scenario_winners scenario_losers by simp_all
  have "real (length [5, 3, 2 :: real]) / real (length [5, -2, 3, -1, -4, 2 :: real]) = 1 / 2"
    by simp
  then show "win_rate r = Str ''50.00%''"
    unfolding r_def trade_stats_win_rate scenario_winners
    by (simp only: to_double_half format_pct2_half)
  show "max_profit_trade r = 5" "max_loss_trade r = -4"
    unfolding r_def trade_stats_extremes scenario_winners scenario_losers by simp_all
  show p: "avg_profit r = 10 / 3"
    unfolding r_def trade_stats_avg_profit scenario_winners by simp
  show l: "avg_loss r = - 7 / 3"
    unfolding r_def trade_stats_avg_loss scenario_losers by simp
  have "profit_loss_ratio r =
          (if avg_loss r = 0 then PosInf else Num \<bar>avg_profit r / avg_loss r\<bar>)"
    unfolding r_def by (rule trade_stats_ratio_def)
  then show "profit_loss_ratio r = Num (10 / 7)"
    unfolding p l by simp
  show "longest_win_streak r = 1" "longest_loss_streak r = 2"
    unfolding r_def trade_stats_streaks scenario_streaks by simp_all
qed

subsection \<open>Scenario C\<close>

text \<open>
  Claim C1, as the specification states it, gives the longest losing streak of the trade
  list 5, -2, 3, -1, -4, 2 as 1. The trades -1 and -4 are consecutive losers: the engine
  returns 2.
\<close>

theorem scenario_C_loss_streak_counterexample:
  "map_sum id longest_loss_streak
     (calculate_strategy_one_performance
        (columns_frame [5, -2, 3, -1, -4, 2] [5, 3, 6, 5, 1, 3])) \<noteq> Inr 1"
  by (simp add: calculate_on_columns [of _ "[5, -2, 3, -1, -4, 2]" "[5, 3, 6, 5, 1, 3]"]
        columns_frame_def realized_trades_def trade_stats_scenario)

text \<open>
  Claim C1, amended. On every table whose realized trade list is 5, -2, 3, -1, -4, 2 the
  engine returns total trades 6, winning count 3 with total profit 10, losing count 3 with
  total loss -7, win rate 0.5 (reported as the string 50.00%), largest win 5, largest loss
  -4, average win 10/3, average loss -7/3, profit/loss ratio 10/7, longest winning streak 1
  and longest losing streak 2.
\<close>

theorem scenario_C_metrics:
  assumes "ret_col f = Some rs" "cus_col f = Some cs" "length cs = length rs"
    and "realized_trades rs = [5, -2, 3, -1, -4, 2]"
  shows "\<exists>m. calculate_strategy_one_performance f = Inr m \<and>
           total_trades m = 6 \<and> num_winning_trades m = 3 \<and> total_profit m = 10 \<and>
           num_losing_trades m = 3 \<and> total_loss m = -7 \<and>
           win_rate m = Str (format_pct2 (1 / 2)) \<and> win_rate m = Str ''50.00%'' \<and>
           max_profit_trade m = 5 \<and> max_loss_trade m = -4 \<and>
           avg_profit m = 10 / 3 \<and> avg_loss m = - 7 / 3 \<and>
           profit_loss_ratio m = Num (10 / 7) \<and>
           longest_win_streak m = 1 \<and> longest_loss_streak m = 2"
proof -
  let ?m = "trade_stats (last cs) (maxdrawdown cs) [5, -2, 3, -1, -4, 2]"
  from calculate_on_columns [OF assms(1-3)] assms(4)
  have "calculate_strategy_one_performance f = Inr ?m" by simp
  then show ?thesis
    by (intro exI [of _ ?m] conjI) (simp_all only: trade_stats_scenario format_pct2_half)
qed

text \<open>An instance: the trades interleaved with steps that realize nothing.\<close>

theorem scenario_C_metrics_witness:
  "\<exists>m. calculate_strategy_one_performance
          (columns_frame [0, 5, -2, 0, 3, -1, -4, 2] [0, 5, 3, 4, 6, 5, 1, 3]) = Inr m \<and>
        total_trades m = 6 \<and> num_winning_trades m = 3 \<and> total_profit m = 10 \<and>
        num_losing_trades m = 3 \<and> total_loss m = -7 \<and>
        win_rate m = Str (format_pct2 (1 / 2)) \<and> win_rate m = Str ''50.00%'' \<and>
        max_profit_trade m = 5 \<and> max_loss_trade m = -4 \<and>
        avg_profit m = 10 / 3 \<and> avg_loss m = - 7 / 3 \<and>
        profit_loss_ratio m = Num (10 / 7) \<and>
        longest_win_streak m = 1 \<and> longest_loss_streak m = 2"
  by (rule scenario_C_metrics [where rs = "[0, 5, -2, 0, 3, -1, -4, 2]" and cs = "[0, 5, 3, 4, 6, 5, 1, 3]"])
     (simp_all add: columns_frame_def realized_trades_def)

subsection \<open>Profit/loss ratio\<close>

lemma trade_stats_averages:
  "avg_profit (trade_stats c m ts) = mean_or_zero (filter (\<lambda>t. t > 0) ts)"
  "avg_loss (trade_stats c m ts) = mean_or_zero (filter (\<lambda>t. t < 0) ts)"
  by (simp_all add: trade_stats_avg_profit trade_stats_avg_loss mean_or_zero_def)

lemma mean_losers_negative:
  assumes "filter (\<lambda>t. t < 0) ts \<noteq> []"
  shows "mean_or_zero (filter (\<lambda>t. t < (0::real)) ts) < 0"
proof -
  from assms have "sum_list (filter (\<lambda>t. t < 0) ts) < 0"
    by (intro sum_list_negative) auto
  moreover from assms have "0 < real (length (filter (\<lambda>t. t < 0) ts))" by simp
  ultimately show ?thesis
    using assms by (simp add: mean_or_zero_def divide_neg_pos)
qed

text \<open>
  Claim C7. For every table with its two columns, the profit/loss ratio of the returned
  record is positive infinity exactly when the realized trade list has a winning trade and
  no losing trade; it is the zero sentinel when there is no trade; and when there is a
  losing trade it is the finite value |average win / average loss|, the average win
  being the average of the winning trades of the list, or 0 without one, and the average
  loss the average of its losing trades, a negative number.
\<close>

theorem profit_loss_ratio_infinite_iff:
  assumes "ret_col f = Some rs" "cus_col f = Some cs" "length cs = length rs"
  shows "\<exists>m. calculate_strategy_one_performance f = Inr m \<and>
           (profit_loss_ratio m = PosInf \<longleftrightarrow>
              (\<exists>t \<in> set (realized_trades rs). t > 0) \<and> \<not> (\<exists>t \<in> set (realized_trades rs). t < 0)) \<and>
           (realized_trades rs = [] \<longrightarrow> profit_loss_ratio m = Num 0) \<and>
           ((\<exists>t \<in> set (realized_trades rs). t < 0) \<longrightarrow>
              profit_loss_ratio m = Num \<bar>avg_profit m / avg_loss m\<bar> \<and>
              avg_profit m = mean_or_zero (filter (\<lambda>t. t > 0) (realized_trades rs)) \<and>
              avg_loss m = mean_or_zero (filter (\<lambda>t. t < 0) (realized_trades rs)) \<and>
              avg_loss m < 0 \<and>
              profit_loss_ratio m =
                Num \<bar>mean_or_zero (filter (\<lambda>t. t > 0) (realized_trades rs)) /
                     mean_or_zero (filter (\<lambda>t. t < 0) (realized_trades rs))\<bar>)"
proof (cases "realized_trades rs = []")
  case True
  with calculate_on_columns [OF assms] show ?thesis
    by (simp add: no_trade_metrics_def)
next
  case False
  let ?ts = "realized_trades rs"
  let ?m = "trade_stats (last cs) (maxdrawdown cs) ?ts"
  from False calculate_on_columns [OF assms]
  have run: "calculate_strategy_one_performance f = Inr ?m" by simp
  have losers: "filter (\<lambda>t. t < 0) ?ts = [] \<longleftrightarrow> \<not> (\<exists>t \<in> set ?ts. t < 0)"
    by (auto simp: filter_empty_conv)
  have winner: "\<not> (\<exists>t \<in> set ?ts. t < 0) \<Longrightarrow> \<exists>t \<in> set ?ts. t > 0"
  proof -
    assume no: "\<not> (\<exists>t \<in> set ?ts. t < 0)"
    from False obtain t where t: "t \<in> set ?ts" by (cases ?ts) auto
    with realized_trades_signs [OF t] no show ?thesis by auto
  qed
  have inf: "profit_loss_ratio ?m = PosInf \<longleftrightarrow>
      (\<exists>t \<in> set ?ts. t > 0) \<and> \<not> (\<exists>t \<in> set ?ts. t < 0)"
    using losers winner by (auto simp: trade_stats_ratio)
  have fin: "profit_loss_ratio ?m = Num \<bar>avg_profit ?m / avg_loss ?m\<bar> \<and>
      avg_profit ?m = mean_or_zero (filter (\<lambda>t. t > 0) ?ts) \<and>
      avg_loss ?m = mean_or_zero (filter (\<lambda>t. t < 0) ?ts) \<and>
      avg_loss ?m < 0 \<and>
      profit_loss_ratio ?m =
        Num \<bar>mean_or_zero (filter (\<lambda>t. t > 0) ?ts) / mean_or_zero (filter (\<lambda>t. t < 0) ?ts)\<bar>"
    if "\<exists>t \<in> set ?ts. t < 0"
  proof -
    from that losers have ne: "filter (\<lambda>t. t < 0) ?ts \<noteq> []" by simp
    then have r: "profit_loss_ratio ?m = Num \<bar>avg_profit ?m / avg_loss ?m\<bar>"
      by (simp add: trade_stats_ratio)
    from mean_losers_negative [OF ne] have neg: "avg_loss ?m < 0"
      by (simp only: trade_stats_averages)
    from r neg show ?thesis by (simp only: trade_stats_averages simp_thms)
  qed
  from run False inf fin show ?thesis by blast
qed

text \<open>
  Instances: winners only; the trades 4 and -2, with the ratio 2; a loser only, with the
  ratio 0; no trade.
\<close>

theorem profit_loss_ratio_infinite_iff_witness:
  "(\<exists>m. calculate_strategy_one_performance (columns_frame [0, 4, 0, 2] [0, 4, 4, 6]) = Inr m \<and>
        profit_loss_ratio m = PosInf) \<and>
   (\<exists>m. calculate_strategy_one_performance (columns_frame [0, 4, 0, -2] [0, 4, 4, 2]) = Inr m \<and>
        avg_profit m = 4 \<and> avg_loss m = - 2 \<and> profit_loss_ratio m = Num 2) \<and>
   (\<exists>m. calculate_strategy_one_performance (columns_frame [0, -3] [0, -3]) = Inr m \<and>
        avg_profit m = 0 \<and> avg_loss m = - 3 \<and> profit_loss_ratio m = Num 0) \<and>
   (\<exists>m. calculate_strategy_one_performance (columns_frame [0, 0] [0, 0]) = Inr m \<and>
        profit_loss_ratio m = Num 0)"
proof (intro conjI)
  show "\<exists>m. calculate_strategy_one_performance (columns_frame [0, 4, 0, 2] [0, 4, 4, 6]) = Inr m \<and>
        profit_loss_ratio m = PosInf"
    using profit_loss_ratio_infinite_iff [of "columns_frame [0, 4, 0, 2] [0, 4, 4, 6]" "[0, 4, 0, 2]" "[0, 4, 4, 6]"]
    by (auto simp: columns_frame_def realized_trades_def)
  show "\<exists>m. calculate_strategy_one_performance (columns_frame [0, 4, 0, -2] [0, 4, 4, 2]) = Inr m \<and>
        avg_profit m = 4 \<and> avg_loss m = - 2 \<and> profit_loss_ratio m = Num 2"
    using profit_loss_ratio_infinite_iff [of "columns_frame [0, 4, 0, -2] [0, 4, 4, 2]" "[0, 4, 0, -2]" "[0, 4, 4, 2]"]
    by (auto simp: columns_frame_def realized_trades_def mean_or_zero_def)
  show "\<exists>m. calculate_strategy_one_performance (columns_frame [0, -3] [0, -3]) = Inr m \<and>
        avg_profit m = 0 \<and> avg_loss m = - 3 \<and> profit_loss_ratio m = Num 0"
    using profit_loss_ratio_infinite_iff [of "columns_frame [0, -3] [0, -3]" "[0, -3]" "[0, -3]"]
    by (auto simp: columns_frame_def realized_trades_def mean_or_zero_def)
  show "\<exists>m. calculate_strategy_one_performance (columns_frame [0, 0] [0, 0]) = Inr m \<and>
        profit_loss_ratio m = Num 0"
    using profit_loss_ratio_infinite_iff [of "columns_frame [0, 0] [0, 0]" "[0, 0]" "[0, 0]"]
    by (auto simp: columns_frame_def realized_trades_def)
qed

subsection \<open>Win rate\<close>

text \<open>
  Claim C8, as the specification states it, makes the win rate field a number. The field
  is the text that \<open>.2%\<close> formats: for three winners among six trades it is the string
  50.00%, not the number 0.5.
\<close>

theorem win_rate_field_counterexample:
  "map_sum id win_rate
     (calculate_strategy_one_performance
        (columns_frame [5, -2, 3, -1, -4, 2] [5, 3, 6, 5, 1, 3])) = Inr (Str ''50.00%'') \<and>
   map_sum id win_rate
     (calculate_strategy_one_performance
        (columns_frame [5, -2, 3, -1, -4, 2] [5, 3, 6, 5, 1, 3])) \<noteq> Inr (Num (1 / 2))"
  by (simp add: calculate_on_columns [of _ "[5, -2, 3, -1, -4, 2]" "[5, 3, 6, 5, 1, 3]"]
        columns_frame_def realized_trades_def trade_stats_scenario)

text \<open>
  Claim C8, amended. The win rate field is a string: what the format \<open>.2%\<close> prints for
  the double nearest to winning count divided by total count, a percentage with two
  decimals. The quotient and the double lie between 0 and 1. The field is the string
  0.00% when there is no trade.
\<close>

theorem win_rate_field:
  assumes "ret_col f = Some rs" "cus_col f = Some cs" "length cs = length rs"
  shows "\<exists>m. calculate_strategy_one_performance f = Inr m \<and>
           total_trades m = length (realized_trades rs) \<and>
           num_winning_trades m = length (filter (\<lambda>t. t > 0) (realized_trades rs)) \<and>
           (total_trades m = 0 \<longrightarrow> win_rate m = Str ''0.00%'') \<and>
           (total_trades m > 0 \<longrightarrow>
              win_rate m =
                Str (format_pct2 (to_double (real (num_winning_trades m) / real (total_trades m)))) \<and>
              0 \<le> real (num_winning_trades m) / real (total_trades m) \<and>
              real (num_winning_trades m) / real (total_trades m) \<le> 1 \<and>
              0 \<le> to_double (real (num_winning_trades m) / real (total_trades m)) \<and>
              to_double (real (num_winning_trades m) / real (total_trades m)) \<le> 1)"
proof (cases "realized_trades rs = []")
  case True
  with calculate_on_columns [OF assms] show ?thesis
    by (simp add: no_trade_metrics_def)
next
  case False
  let ?ts = "realized_trades rs"
  let ?m = "trade_stats (last cs) (maxdrawdown cs) ?ts"
  let ?q = "real (length (filter (\<lambda>t. t > 0) ?ts)) / real (length ?ts)"
  from False calculate_on_columns [OF assms]
  have run: "calculate_strategy_one_performance f = Inr ?m" by simp
  have le: "length (filter (\<lambda>t. t > 0) ?ts) \<le> length ?ts" by (rule length_filter_le)
  from False have pos: "0 < length ?ts" by simp
  have q0: "0 \<le> ?q" by simp
  from le pos have q1: "?q \<le> 1" by (simp add: divide_le_eq)
  note d = to_double_unit_interval [OF q0 q1]
  have fields: "total_trades ?m = length ?ts"
    "num_winning_trades ?m = length (filter (\<lambda>t. t > 0) ?ts)"
    "win_rate ?m = Str (format_pct2 (to_double ?q))"
    by (simp_all only: trade_stats_counts trade_stats_win_rate)
  show ?thesis
  proof (intro exI [of _ ?m] conjI impI)
    show "calculate_strategy_one_performance f = Inr ?m" by (rule run)
    show "total_trades ?m = length ?ts" by (rule fields)
    show "num_winning_trades ?m = length (filter (\<lambda>t. t > 0) ?ts)" by (rule fields)
    show "win_rate ?m = Str ''0.00%''" if "total_trades ?m = 0"
      using that pos by (simp only: fields)
    show "win_rate ?m =
        Str (format_pct2 (to_double (real (num_winning_trades ?m) / real (total_trades ?m))))"
      by (simp only: fields)
    show "0 \<le> real (num_winning_trades ?m) / real (total_trades ?m)"
      using q0 by (simp only: fields)
    show "real (num_winning_trades ?m) / real (total_trades ?m) \<le> 1"
      using q1 by (simp only: fields)
    show "0 \<le> to_double (real (num_winning_trades ?m) / real (total_trades ?m))"
      using d(1) by (simp only: fields)
    show "to_double (real (num_winning_trades ?m) / real (total_trades ?m)) \<le> 1"
      using d(2) by (simp only: fields)
  qed
qed

text \<open>
  Instances: one winner among two trades; 23 winners among 160 trades, where the
  percentage 14.375 of the exact quotient is halfway between 14.37 and 14.38 and the
  doubles print 14.37%; and no trade.
\<close>

theorem win_rate_field_witness:
  "(\<exists>m. calculate_strategy_one_performance (columns_frame [0, 4, 0, -2] [0, 4, 4, 2]) = Inr m \<and>
        total_trades m = 2 \<and> num_winning_trades m = 1 \<and> win_rate m = Str ''50.00%'') \<and>
   (\<exists>m. calculate_strategy_one_performance
           (columns_frame (replicate 23 1 @ replicate 137 (- 1)) (replicate 160 0)) = Inr m \<and>
        total_trades m = 160 \<and> num_winning_trades m = 23 \<and> win_rate m = Str ''14.37%'') \<and>
   (\<exists>m. calculate_strategy_one_performance (columns_frame [0, 0] [0, 0]) = Inr m \<and>
        total_trades m = 0 \<and> win_rate m = Str ''0.00%'')"
proof (intro conjI)
  from win_rate_field [of "columns_frame [0, 4, 0, -2] [0, 4, 4, 2]" "[0, 4, 0, -2]" "[0, 4, 4, 2]"]
  obtain m where m: "calculate_strategy_one_performance (columns_frame [0, 4, 0, -2] [0, 4, 4, 2]) = Inr m"
      "total_trades m = 2" "num_winning_trades m = 1"
      "win_rate m = Str (format_pct2 (to_double (real (num_winning_trades m) / real (total_trades m))))"
    by (auto simp: columns_frame_def realized_trades_def)
  from m(4) have "win_rate m = Str ''50.00%''"
    by (simp only: m(2,3)) (simp add: to_double_half format_pct2_half)
  with m show "\<exists>m. calculate_strategy_one_performance (columns_frame [0, 4, 0, -2] [0, 4, 4, 2]) = Inr m \<and>
        total_trades m = 2 \<and> num_winning_trades m = 1 \<and> win_rate m = Str ''50.00%''"
    by blast
next
  let ?rs = "replicate 23 1 @ replicate 137 (- 1) :: real list"
  let ?cs = "replicate 160 0 :: real list"
  have ts: "realized_trades ?rs = ?rs" by (simp add: realized_trades_def)
  have n: "length ?rs = 160" by simp
  have w: "length (filter (\<lambda>t. t > 0) ?rs) = 23" by simp
  from win_rate_field [of "columns_frame ?rs ?cs" ?rs ?cs]
  obtain m where m: "calculate_strategy_one_performance (columns_frame ?rs ?cs) = Inr m"
      "total_trades m = length (realized_trades ?rs)"
      "num_winning_trades m = length (filter (\<lambda>t. t > 0) (realized_trades ?rs))"
      "total_trades m > 0 \<longrightarrow> win_rate m =
         Str (format_pct2 (to_double (real (num_winning_trades m) / real (total_trades m))))"
    by (auto simp: columns_frame_def)
  from m(2,3) have c: "total_trades m = 160" "num_winning_trades m = 23"
    by (simp_all only: ts n w)
  with m(4) have "win_rate m = Str (format_pct2 (to_double (23 / 160)))" by simp
  then have "win_rate m = Str ''14.37%''" by (simp only: format_pct2_23_160)
  with m(1) c show "\<exists>m. calculate_strategy_one_performance (columns_frame ?rs ?cs) = Inr m \<and>
        total_trades m = 160 \<and> num_winning_trades m = 23 \<and> win_rate m = Str ''14.37%''"
    by blast
next
  show "\<exists>m. calculate_strategy_one_performance (columns_frame [0, 0] [0, 0]) = Inr m \<and>
        total_trades m = 0 \<and> win_rate m = Str ''0.00%''"
    using win_rate_field [of "columns_frame [0, 0] [0, 0]" "[0, 0]" "[0, 0]"]
    by (auto simp: columns_frame_def realized_trades_def)
qed

subsection \<open>Maximum drawdown of the record\<close>

text \<open>
  Claim C6, as the specification states it, covers every equity sequence. On the empty
  one the maximum of pandas is NaN, which is not a number greater than or equal to 0.
\<close>

theorem maxdrawdown_empty_counterexample:
  "map_sum id mdd (calculate_strategy_one_performance (columns_frame [] [])) = Inr NaN"
  by (simp add: calculate_on_columns [of _ "[]" "[]"] columns_frame_def realized_trades_def
        no_trade_metrics_def maxdrawdown_def)

lemma mdd_field:
  assumes "ret_col f = Some rs" "cus_col f = Some cs" "length cs = length rs"
  shows "\<exists>m. calculate_strategy_one_performance f = Inr m \<and> mdd m = maxdrawdown cs"
  using calculate_on_columns [OF assms]
  by (simp add: no_trade_metrics_def trade_stats_curve)

text \<open>
  Claim C6, amended. For every non-empty equity sequence the maximum drawdown of the
  record is the maximum over all steps of the running maximum minus the equity; it is
  greater than or equal to 0, and it is 0 when the sequence is non-decreasing.
\<close>

theorem maximum_drawdown:
  assumes "ret_col f = Some rs" "cus_col f = Some cs" "length cs = length rs" "cs \<noteq> []"
  shows "\<exists>m. calculate_strategy_one_performance f = Inr m \<and>
           mdd m = Num (max_drawdown_spec cs) \<and>
           0 \<le> max_drawdown_spec cs \<and>
           (sorted cs \<longrightarrow> mdd m = Num 0)"
  using mdd_field [OF assms(1-3)] maxdrawdown_spec [OF assms(4)]
    max_drawdown_spec_nonneg [OF assms(4)] max_drawdown_spec_sorted [OF _ assms(4)]
  by auto

text \<open>Instances: the equity curve of scenario B, and a non-decreasing curve.\<close>

theorem maximum_drawdown_witness:
  "(\<exists>m. calculate_strategy_one_performance (columns_frame [0, 0, 0, -3, 0] [0, 0, 1, -3, -3]) = Inr m \<and>
        mdd m = Num (max_drawdown_spec [0, 0, 1, -3, -3]) \<and> max_drawdown_spec [0, 0, 1, -3, -3] = 4) \<and>
   (\<exists>m. calculate_strategy_one_performance (columns_frame [0, 2, 0, 3] [0, 2, 2, 5]) = Inr m \<and>
        sorted [0, 2, 2, 5 :: real] \<and> mdd m = Num 0)"
proof (intro conjI)
  have v: "max_drawdown_spec [0, 0, 1, -3, -3] = 4"
    by (simp add: max_drawdown_spec_def drawdown_at_def running_max_def upt_rec)
  show "\<exists>m. calculate_strategy_one_performance (columns_frame [0, 0, 0, -3, 0] [0, 0, 1, -3, -3]) = Inr m \<and>
        mdd m = Num (max_drawdown_spec [0, 0, 1, -3, -3]) \<and> max_drawdown_spec [0, 0, 1, -3, -3] = 4"
    using maximum_drawdown [of "columns_frame [0, 0, 0, -3, 0] [0, 0, 1, -3, -3]" "[0, 0, 0, -3, 0]" "[0, 0, 1, -3, -3]"] v
    by (auto simp: columns_frame_def)
  show "\<exists>m. calculate_strategy_one_performance (columns_frame [0, 2, 0, 3] [0, 2, 2, 5]) = Inr m \<and>
        sorted [0, 2, 2, 5 :: real] \<and> mdd m = Num 0"
    using maximum_drawdown [of "columns_frame [0, 2, 0, 3] [0, 2, 2, 5]" "[0, 2, 0, 3]" "[0, 2, 2, 5]"]
    by (auto simp: columns_frame_def)
qed

section \<open>Verification: strategy simulators\<close>

subsection \<open>Both loop bodies are the step with signals\<close>

lemma entry_two_enter_long:
  "entry_two df s l i st = enter_long (golden_cross df s l i) df i st"
  by (simp add: entry_two_def enter_long_def golden_cross_def Let_def)

lemma exit_two_leave_long:
  "exit_two df s i st = leave_long (below_short df s i) df i st"
  by (simp add: exit_two_def leave_long_def below_short_def Let_def)

lemma entry_three_enter_long:
  "entry_three df s m l i st = enter_long (bullish_alignment df s m l i) df i st"
  by (simp add: entry_three_def enter_long_def bullish_alignment_def Let_def)

lemma exit_three_leave_long:
  "exit_three df s m i st = leave_long (short_below_medium df s m i) df i st"
  by (simp add: exit_three_def leave_long_def short_below_medium_def Let_def)

lemma step_two_trade_step:
  "step_two df s l = trade_step (golden_cross df s l) (below_short df s) df"
  by (intro ext) (simp add: step_two_def trade_step_def entry_two_enter_long exit_two_leave_long)

lemma step_three_trade_step:
  "step_three df s m l = trade_step (bullish_alignment df s m l) (short_below_medium df s m) df"
  by (intro ext)
     (simp add: step_three_def trade_step_def entry_three_enter_long exit_three_leave_long)

text \<open>The five ways through one step.\<close>

lemma trade_step_stay_flat:
  "position st = 0 \<Longrightarrow> \<not> enter i \<Longrightarrow>
   trade_step enter leave df i st =
     st\<lparr>cus_c := (cus_c st)[i := cum_ret st], pos_c := (pos_c st)[i := 0]\<rparr>"
  by (simp add: trade_step_def enter_long_def leave_long_def settle_def)

lemma trade_step_enter:
  "position st = 0 \<Longrightarrow> enter i \<Longrightarrow> \<not> leave i \<Longrightarrow>
   trade_step enter leave df i st =
     st\<lparr>avg_cost := open_price (df ! i), position := 1,
        cus_c := (cus_c st)[i := cum_ret st + (close_price (df ! i) - open_price (df ! i))],
        pos_c := (pos_c st)[i := 1]\<rparr>"
  by (simp add: trade_step_def enter_long_def leave_long_def settle_def)

lemma trade_step_enter_leave:
  "position st = 0 \<Longrightarrow> enter i \<Longrightarrow> leave i \<Longrightarrow>
   trade_step enter leave df i st =
     st\<lparr>avg_cost := 0, position := 0,
        ret_c := (ret_c st)[i := close_price (df ! i) - open_price (df ! i)],
        cum_ret := cum_ret st + (close_price (df ! i) - open_price (df ! i)),
        cus_c := (cus_c st)[i := cum_ret st + (close_price (df ! i) - open_price (df ! i))],
        pos_c := (pos_c st)[i := 0]\<rparr>"
  by (simp add: trade_step_def enter_long_def leave_long_def settle_def)

lemma trade_step_hold:
  "position st = 1 \<Longrightarrow> \<not> leave i \<Longrightarrow>
   trade_step enter leave df i st =
     st\<lparr>cus_c := (cus_c st)[i := cum_ret st + (close_price (df ! i) - avg_cost st)],
        pos_c := (pos_c st)[i := 1]\<rparr>"
  by (simp add: trade_step_def enter_long_def leave_long_def settle_def)

lemma trade_step_leave:
  "position st = 1 \<Longrightarrow> leave i \<Longrightarrow>
   trade_step enter leave df i st =
     st\<lparr>ret_c := (ret_c st)[i := close_price (df ! i) - avg_cost st],
        cum_ret := cum_ret st + (close_price (df ! i) - avg_cost st), position := 0, avg_cost := 0,
        cus_c := (cus_c st)[i := cum_ret st + (close_price (df ! i) - avg_cost st)],
        pos_c := (pos_c st)[i := 0]\<rparr>"
  by (simp add: trade_step_def enter_long_def leave_long_def settle_def)

subsection \<open>The invariant of the loop\<close>

lemma sum_list_update_zero:
  fixes xs :: "real list"
  shows "i < length xs \<Longrightarrow> xs ! i = 0 \<Longrightarrow> sum_list (xs[i := r]) = sum_list xs + r"
proof (induction xs arbitrary: i)
  case Nil
  then show ?case by simp
next
  case (Cons x xs)
  then show ?case by (cases i) simp_all
qed

lemma sum_list_realized_trades: "sum_list (realized_trades rs) = sum_list rs"
  by (induction rs) (simp_all add: realized_trades_def)

lemma entry_step_upto_Suc:
  "1 \<le> n \<Longrightarrow>
   entry_step_upto (Suc n) ps = (if ps ! n = 1 \<and> ps ! (n - 1) = 0 then n else entry_step_upto n ps)"
  by (simp add: entry_step_upto_def)

lemma entry_step_upto_update:
  "n \<le> k \<Longrightarrow> entry_step_upto n (ps[k := v]) = entry_step_upto n ps"
  unfolding entry_step_upto_def
  by (rule fold_cong) (auto simp: fun_eq_iff)

lemma sum_list_replicate_zero: "sum_list (replicate k (0::real)) = 0"
  by (induction k) simp_all

lemma sim_inv_init: "1 \<le> length df \<Longrightarrow> sim_inv df (Suc 0) (sim_init (length df))"
  by (cases df) (simp_all add: sim_inv_def sim_init_def sum_list_replicate_zero)

lemma sim_inv_step:
  assumes inv: "sim_inv df n st" and n: "1 \<le> n" "n < length df"
  shows "sim_inv df (Suc n) (trade_step enter leave df n st)"
proof -
  from inv have len: "length (ret_c st) = length df" "length (cus_c st) = length df"
      "length (pos_c st) = length df"
    and pos: "position st = 0 \<or> position st = 1"
    and cum: "cum_ret st = sum_list (ret_c st)"
    and zero: "ret_c st ! n = 0" "\<And>j. Suc n \<le> j \<Longrightarrow> j < length df \<Longrightarrow> ret_c st ! j = 0"
    and prev: "pos_c st ! (n - 1) = position st"
    and cost: "position st = 1 \<Longrightarrow> avg_cost st = open_price (df ! entry_step_upto n (pos_c st))"
    using n by (simp_all add: sim_inv_def)
  from pos show ?thesis
  proof
    assume flat: "position st = 0"
    show ?thesis
    proof (cases "enter n")
      case False
      with flat len n cum zero show ?thesis
        by (simp add: trade_step_stay_flat sim_inv_def)
    next
      case enter: True
      show ?thesis
      proof (cases "leave n")
        case False
        with flat enter len n cum zero prev show ?thesis
          by (simp add: trade_step_enter sim_inv_def entry_step_upto_Suc)
      next
        case True
        with flat enter len n cum zero show ?thesis
          by (simp add: trade_step_enter_leave sim_inv_def sum_list_update_zero)
      qed
    qed
  next
    assume long: "position st = 1"
    show ?thesis
    proof (cases "leave n")
      case False
      with long len n cum zero prev cost show ?thesis
        by (simp add: trade_step_hold sim_inv_def entry_step_upto_Suc entry_step_upto_update)
    next
      case True
      with long len n cum zero show ?thesis
        by (simp add: trade_step_leave sim_inv_def sum_list_update_zero)
    qed
  qed
qed

lemma sim_inv_run:
  "1 \<le> n \<Longrightarrow> n \<le> length df \<Longrightarrow>
   sim_inv df n (fold (trade_step enter leave df) [1..<n] (sim_init (length df)))"
proof (induction n)
  case 0
  then show ?case by simp
next
  case (Suc n)
  show ?case
  proof (cases "n = 0")
    case True
    with Suc.prems show ?thesis by (simp add: sim_inv_init)
  next
    case False
    with Suc have "sim_inv df n (fold (trade_step enter leave df) [1..<n] (sim_init (length df)))"
      by simp
    with False Suc.prems show ?thesis
      by (simp add: sim_inv_step)
  qed
qed

subsection \<open>Runs on the example tables\<close>

lemmas sim_eval =
  backtest_strategy_two_def backtest_strategy_three_def step_two_def step_three_def
  entry_two_def exit_two_def entry_three_def exit_three_def settle_def sim_init_def
  result_frame_def bare_frame_def nan_less_def bar_of_def trajectory_def Let_def

lemma upt_1_3: "[1..<3] = [1, 2]"
  by (simp add: upt_rec)

lemma upt_1_4: "[1..<4] = [1, 2, 3]"
  by (simp add: upt_rec)


lemma upt_1_6: "[1..<6] = [1, 2, 3, 4, 5]"
  by (simp add: upt_rec)

lemma run_cross:
  "trajectory (backtest_strategy_two cross_series 1 2) =
     (Some [0, 0, 0, 1], Some [0, 0, 0, 1], Some [0, 0, 0, 0])"
  by (simp add: sim_eval cross_series_def upt_1_4 numeral_eq_Suc)

lemma run_aligned:
  "trajectory (backtest_strategy_three aligned_series 1 2 3) =
     (Some [0, 0, 0, -2], Some [0, 0, 0, -2], Some [0, 0, 0, 0])"
  by (simp add: sim_eval aligned_series_def upt_1_4 numeral_eq_Suc)

lemma run_late_cross:
  "trajectory (backtest_strategy_two late_cross_series 2 1) =
     (Some [0, 0, 0, 0, 0, -1], Some [0, 0, 0, 0, 3, -1], Some [0, 0, 0, 0, 1, 0])"
  by (simp add: sim_eval late_cross_series_def upt_1_6 numeral_eq_Suc)


lemma run_open_cross:
  "trajectory (backtest_strategy_two open_cross_series 1 2) =
     (Some [0, 0, 0, 0], Some [0, 0, 0, -1], Some [0, 0, 0, 1])"
  by (simp add: sim_eval open_cross_series_def upt_1_4 numeral_eq_Suc)

lemma run_open_aligned:
  "trajectory (backtest_strategy_three open_aligned_series 1 2 3) =
     (Some [0, 0, 0, 0], Some [0, 0, 0, 2], Some [0, 0, 0, 1])"
  by (simp add: sim_eval open_aligned_series_def upt_1_4 numeral_eq_Suc)

subsection \<open>Properties of the returned trajectory\<close>

lemma sim_inv_final:
  assumes "2 \<le> length df"
  shows "sim_inv df (length df)
           (fold (trade_step enter leave df) [1..<length df] (sim_init (length df)))"
  using assms by (intro sim_inv_run) simp_all

lemma final_equity_law_run:
  assumes L: "2 \<le> length df" and inv: "sim_inv df (length df) st"
  shows "final_equity_law df (result_frame df st)"
proof -
  from L have ne: "df \<noteq> []" by auto
  from inv have len: "length (cus_c st) = length df" "length (pos_c st) = length df"
    and pos: "position st = 0 \<or> position st = 1"
    and cum: "cum_ret st = sum_list (ret_c st)"
    and lastp: "pos_c st ! (length df - 1) = position st"
    and lastc: "cus_c st ! (length df - 1) =
       cum_ret st + (if position st = 1 then close_price (df ! (length df - 1)) - avg_cost st else 0)"
    and cost: "position st = 1 \<Longrightarrow>
       avg_cost st = open_price (df ! entry_step_upto (length df) (pos_c st))"
    by (simp_all add: sim_inv_def)
  from ne len have nec: "cus_c st \<noteq> []" and nep: "pos_c st \<noteq> []" by auto
  have lp: "last (pos_c st) = position st"
    using lastp len nep by (simp add: last_conv_nth)
  have lc: "last (cus_c st) =
      cum_ret st + (if position st = 1 then close_price (last df) - avg_cost st else 0)"
    using lastc len nec ne by (simp add: last_conv_nth)
  from lp lc pos cum cost len show ?thesis
    by (auto simp: final_equity_law_def result_frame_def entry_step_def sum_list_realized_trades)
qed

lemma full_trajectory_run:
  assumes "sim_inv df (length df) st"
  shows "full_trajectory df (result_frame df st)"
  using assms by (simp add: full_trajectory_def result_frame_def sim_inv_def)

lemma backtest_two_run:
  "2 \<le> length df \<Longrightarrow>
   backtest_strategy_two df s l =
     result_frame df (fold (trade_step (golden_cross df s l) (below_short df s) df)
                        [1..<length df] (sim_init (length df)))"
  by (simp add: backtest_strategy_two_def step_two_trade_step Let_def)

lemma backtest_three_run:
  "2 \<le> length df \<Longrightarrow>
   backtest_strategy_three df s m l =
     result_frame df (fold (trade_step (bullish_alignment df s m l) (short_below_medium df s m) df)
                        [1..<length df] (sim_init (length df)))"
  by (simp add: backtest_strategy_three_def step_three_trade_step Let_def)

lemma backtest_two_full_trajectory:
  "2 \<le> length df \<Longrightarrow> full_trajectory df (backtest_strategy_two df s l)"
  by (simp only: backtest_two_run full_trajectory_run sim_inv_final)


subsection \<open>Final equity\<close>

text \<open>
  Claim C5. For both simulators, on a series of at least two rows, the equity of the last
  row is the sum of the non-zero realized trade returns plus the unrealized value, the
  last close price minus the entry price, of a position still open at the last row, and
  plus nothing when the last row ends flat.
\<close>

theorem final_equity_is_realized_plus_unrealized:
  assumes "2 \<le> length df"
  shows "final_equity_law df (backtest_strategy_two df short_ma_period long_ma_period) \<and>
         final_equity_law df (backtest_strategy_three df ma_short ma_medium ma_long)"
  using assms
  by (simp only: backtest_two_run backtest_three_run final_equity_law_run sim_inv_final simp_thms)

text \<open>
  Instances: a run of strategy two and a run of strategy three that end long, and a run
  of strategy two that ends flat after a trade.
\<close>

theorem final_equity_is_realized_plus_unrealized_witness:
  "2 \<le> length open_cross_series \<and>
   final_equity_law open_cross_series (backtest_strategy_two open_cross_series 1 2) \<and>
   trajectory (backtest_strategy_two open_cross_series 1 2) =
     (Some [0, 0, 0, 0], Some [0, 0, 0, -1], Some [0, 0, 0, 1]) \<and>
   2 \<le> length open_aligned_series \<and>
   final_equity_law open_aligned_series (backtest_strategy_three open_aligned_series 1 2 3) \<and>
   trajectory (backtest_strategy_three open_aligned_series 1 2 3) =
     (Some [0, 0, 0, 0], Some [0, 0, 0, 2], Some [0, 0, 0, 1]) \<and>
   2 \<le> length late_cross_series \<and>
   final_equity_law late_cross_series (backtest_strategy_two late_cross_series 2 1) \<and>
   trajectory (backtest_strategy_two late_cross_series 2 1) =
     (Some [0, 0, 0, 0, 0, -1], Some [0, 0, 0, 0, 3, -1], Some [0, 0, 0, 0, 1, 0])"
proof -
  have a: "2 \<le> length open_cross_series" by (simp add: open_cross_series_def)
  have b: "2 \<le> length late_cross_series" by (simp add: late_cross_series_def)
  have c: "2 \<le> length open_aligned_series" by (simp add: open_aligned_series_def)
  from final_equity_is_realized_plus_unrealized [OF a, of 1 2 1 2 3]
    final_equity_is_realized_plus_unrealized [OF b, of 2 1 1 2 3]
    final_equity_is_realized_plus_unrealized [OF c, of 1 2 1 2 3] a b c
  show ?thesis by (simp only: run_open_cross run_late_cross run_open_aligned simp_thms)
qed

subsection \<open>Periods in the wrong order\<close>




subsection \<open>Series of fewer than two rows\<close>

text \<open>
  Claim C3. The specification promises an all-flat, all-zero trajectory on a series of
  fewer than two rows. Both simulators return at the test \<open>L < 2\<close>, before the columns
  \<open>ret\<close>, \<open>cus\<close> and \<open>position\<close> are created: the table they return for a series of
  one row has none of the three columns, and the metrics engine raises \<open>KeyError\<close> on it.
\<close>

theorem short_series_has_no_trajectory_columns:
  "trajectory (backtest_strategy_two [b] short_ma_period long_ma_period) = (None, None, None) \<and>
   trajectory (backtest_strategy_three [b] ma_short ma_medium ma_long) = (None, None, None) \<and>
   calculate_strategy_one_performance (backtest_strategy_two [b] short_ma_period long_ma_period) =
     Inl KeyError \<and>
   calculate_strategy_one_performance (backtest_strategy_three [b] ma_short ma_medium ma_long) =
     Inl KeyError"
  by (simp add: backtest_strategy_two_def backtest_strategy_three_def bare_frame_def
        trajectory_def calculate_strategy_one_performance_def)

subsection \<open>Entry and exit within one step\<close>

text \<open>
  Claim C10. In both variants there is a series with a step \<open>t\<close> that starts flat, enters
  at the open price of \<open>t\<close> and, the exit block coming after the entry block, leaves at
  the close price of \<open>t\<close>: the realized return recorded at \<open>t\<close> is close minus open of
  \<open>t\<close>, and the step ends flat.
\<close>

theorem entry_and_exit_on_the_same_step:
  "(\<exists>df s l t. 0 < t \<and> t < length df \<and>
      (let before = fold (step_two df s l) [1..<t] (sim_init (length df));
           entered = entry_two df s l t before;
           left = exit_two df s t entered
       in position before = 0 \<and> position entered = 1 \<and>
          avg_cost entered = open_price (df ! t) \<and> position left = 0 \<and>
          ret_c left ! t = close_price (df ! t) - open_price (df ! t)) \<and>
      (\<exists>rs cs ps. trajectory (backtest_strategy_two df s l) = (Some rs, Some cs, Some ps) \<and>
         rs ! t = close_price (df ! t) - open_price (df ! t) \<and> rs ! t \<noteq> 0 \<and> ps ! t = 0)) \<and>
   (\<exists>df s m l t. 0 < t \<and> t < length df \<and>
      (let before = fold (step_three df s m l) [1..<t] (sim_init (length df));
           entered = entry_three df s m l t before;
           left = exit_three df s m t entered
       in position before = 0 \<and> position entered = 1 \<and>
          avg_cost entered = open_price (df ! t) \<and> position left = 0 \<and>
          ret_c left ! t = close_price (df ! t) - open_price (df ! t)) \<and>
      (\<exists>rs cs ps. trajectory (backtest_strategy_three df s m l) = (Some rs, Some cs, Some ps) \<and>
         rs ! t = close_price (df ! t) - open_price (df ! t) \<and> rs ! t \<noteq> 0 \<and> ps ! t = 0))"
proof (intro conjI)
  have two: "let before = fold (step_two cross_series 1 2) [1..<3] (sim_init (length cross_series));
           entered = entry_two cross_series 1 2 3 before;
           left = exit_two cross_series 1 3 entered
       in position before = 0 \<and> position entered = 1 \<and>
          avg_cost entered = open_price (cross_series ! 3) \<and> position left = 0 \<and>
          ret_c left ! 3 = close_price (cross_series ! 3) - open_price (cross_series ! 3)"
    by (simp add: sim_eval cross_series_def upt_1_3 numeral_eq_Suc)
  have out2: "close_price (cross_series ! 3) - open_price (cross_series ! 3) = 1"
    "length cross_series = 4"
    by (simp_all add: cross_series_def bar_of_def)
  show "\<exists>df s l t. 0 < t \<and> t < length df \<and>
      (let before = fold (step_two df s l) [1..<t] (sim_init (length df));
           entered = entry_two df s l t before;
           left = exit_two df s t entered
       in position before = 0 \<and> position entered = 1 \<and>
          avg_cost entered = open_price (df ! t) \<and> position left = 0 \<and>
          ret_c left ! t = close_price (df ! t) - open_price (df ! t)) \<and>
      (\<exists>rs cs ps. trajectory (backtest_strategy_two df s l) = (Some rs, Some cs, Some ps) \<and>
         rs ! t = close_price (df ! t) - open_price (df ! t) \<and> rs ! t \<noteq> 0 \<and> ps ! t = 0)"
    apply (rule exI [of _ cross_series], rule exI [of _ 1], rule exI [of _ 2], rule exI [of _ 3])
    using two by (simp add: run_cross out2)
  have three: "let before = fold (step_three aligned_series 1 2 3) [1..<3] (sim_init (length aligned_series));
           entered = entry_three aligned_series 1 2 3 3 before;
           left = exit_three aligned_series 1 2 3 entered
       in position before = 0 \<and> position entered = 1 \<and>
          avg_cost entered = open_price (aligned_series ! 3) \<and> position left = 0 \<and>
          ret_c left ! 3 = close_price (aligned_series ! 3) - open_price (aligned_series ! 3)"
    by (simp add: sim_eval aligned_series_def upt_1_3 numeral_eq_Suc)
  have out3: "close_price (aligned_series ! 3) - open_price (aligned_series ! 3) = - 2"
    "length aligned_series = 4"
    by (simp_all add: aligned_series_def bar_of_def)
  show "\<exists>df s m l t. 0 < t \<and> t < length df \<and>
      (let before = fold (step_three df s m l) [1..<t] (sim_init (length df));
           entered = entry_three df s m l t before;
           left = exit_three df s m t entered
       in position before = 0 \<and> position entered = 1 \<and>
          avg_cost entered = open_price (df ! t) \<and> position left = 0 \<and>
          ret_c left ! t = close_price (df ! t) - open_price (df ! t)) \<and>
      (\<exists>rs cs ps. trajectory (backtest_strategy_three df s m l) = (Some rs, Some cs, Some ps) \<and>
         rs ! t = close_price (df ! t) - open_price (df ! t) \<and> rs ! t \<noteq> 0 \<and> ps ! t = 0)"
    apply (rule exI [of _ aligned_series], rule exI [of _ 1], rule exI [of _ 2],
           rule exI [of _ 3], rule exI [of _ 3])
    using three by (simp add: run_aligned out3)
qed

section \<open>Verification: sensitivity harness\<close>

subsection \<open>The re-draw loop\<close>

lemma redraw_done: "ma_p < bb_p \<Longrightarrow> redraw r ma_p bb_p g = Some (Inr bb_p, g)"
  by (subst redraw.simps) simp

lemma redraw_again:
  "bb_p \<le> ma_p \<Longrightarrow> fst r \<le> snd r \<Longrightarrow>
   redraw r ma_p bb_p g = redraw r ma_p (randint_value r (g 0)) (rng_tail g)"
  by (subst redraw.simps) (simp add: randint_def)

lemma redraw_empty_range:
  "bb_p \<le> ma_p \<Longrightarrow> snd r < fst r \<Longrightarrow> redraw r ma_p bb_p g = Some (Inl ValueError, g)"
  by (subst redraw.simps) (simp add: randint_def)

lemma randint_value_bounds:
  assumes "fst r \<le> snd r"
  shows "fst r \<le> randint_value r x" and "randint_value r x \<le> snd r"
proof -
  let ?n = "nat (snd r - fst r + 1)"
  from assms have pos: "0 < ?n" by simp
  then have "x mod ?n < ?n" by simp
  then have "int (x mod ?n) < int ?n" by simp
  with assms show "randint_value r x \<le> snd r" by (simp add: randint_value_def)
  show "fst r \<le> randint_value r x" by (simp add: randint_value_def)
qed

lemma redraw_Some:
  assumes "redraw r ma_p bb_p g = Some y"
  shows "case y of (Inl e, g') \<Rightarrow> e = ValueError \<and> snd r < fst r | (Inr v, g') \<Rightarrow> ma_p < v"
proof -
  let ?P = "\<lambda>(r :: int \<times> int) (ma_p :: int) (bb_p :: int) (g :: rng) (y :: (error + int) \<times> rng).
              case y of (Inl e, g') \<Rightarrow> e = ValueError \<and> snd r < fst r | (Inr v, g') \<Rightarrow> ma_p < v"
  have "?P r ma_p bb_p g y"
  proof (rule redraw.raw_induct [where P = ?P, OF _ assms])
    fix redraw' :: "int \<times> int \<Rightarrow> int \<Rightarrow> int \<Rightarrow> rng \<Rightarrow> ((error + int) \<times> rng) option"
    fix r ma_p bb_p g y
    assume IH: "\<And>r ma_p bb_p g y. redraw' r ma_p bb_p g = Some y \<Longrightarrow> ?P r ma_p bb_p g y"
      and body: "(if bb_p \<le> ma_p
                  then case randint r g of (Inl e, g') \<Rightarrow> Some (Inl e, g')
                       | (Inr bb_p', g') \<Rightarrow> redraw' r ma_p bb_p' g'
                  else Some (Inr bb_p, g)) = Some y"
    show "?P r ma_p bb_p g y"
    proof (cases "bb_p \<le> ma_p")
      case False
      with body show ?thesis by auto
    next
      case again: True
      show ?thesis
      proof (cases "snd r < fst r")
        case True
        with again body show ?thesis by (auto simp: randint_def)
      next
        case False
        with again body have "redraw' r ma_p (randint_value r (g 0)) (rng_tail g) = Some y"
          by (simp add: randint_def)
        then show ?thesis by (rule IH)
      qed
    qed
  qed
  then show ?thesis .
qed

lemma redraw_diverges:
  assumes "fst r \<le> snd r" "bb_p \<le> ma_p" "\<forall>k. randint_value r (g k) \<le> ma_p"
  shows "redraw r ma_p bb_p g = None"
proof (rule ccontr)
  let ?P = "\<lambda>(r :: int \<times> int) (ma_p :: int) (bb_p :: int) (g :: rng) (y :: (error + int) \<times> rng).
              \<not> (fst r \<le> snd r \<and> bb_p \<le> ma_p \<and> (\<forall>k. randint_value r (g k) \<le> ma_p))"
  assume "redraw r ma_p bb_p g \<noteq> None"
  then obtain y where some: "redraw r ma_p bb_p g = Some y" by auto
  have "?P r ma_p bb_p g y"
  proof (rule redraw.raw_induct [where P = ?P, OF _ some])
    fix redraw' :: "int \<times> int \<Rightarrow> int \<Rightarrow> int \<Rightarrow> rng \<Rightarrow> ((error + int) \<times> rng) option"
    fix r ma_p bb_p g y
    assume IH: "\<And>r ma_p bb_p g y. redraw' r ma_p bb_p g = Some y \<Longrightarrow> ?P r ma_p bb_p g y"
      and body: "(if bb_p \<le> ma_p
                  then case randint r g of (Inl e, g') \<Rightarrow> Some (Inl e, g')
                       | (Inr bb_p', g') \<Rightarrow> redraw' r ma_p bb_p' g'
                  else Some (Inr bb_p, g)) = Some y"
    show "?P r ma_p bb_p g y"
    proof
      assume inv: "fst r \<le> snd r \<and> bb_p \<le> ma_p \<and> (\<forall>k. randint_value r (g k) \<le> ma_p)"
      with body have "redraw' r ma_p (randint_value r (g 0)) (rng_tail g) = Some y"
        by (simp add: randint_def)
      from IH [OF this] inv show False by (simp add: rng_tail_def)
    qed
  qed
  with assms show False by simp
qed

lemma redraw_returns:
  assumes "fst r \<le> snd r" "ma_p < randint_value r (g k)"
  shows "\<exists>v g'. redraw r ma_p bb_p g = Some (Inr v, g') \<and> ma_p < v"
  using assms(2)
proof (induction k arbitrary: bb_p g)
  case 0
  show ?case
  proof (cases "ma_p < bb_p")
    case True
    then show ?thesis by (simp add: redraw_done)
  next
    case False
    with assms(1) 0 show ?thesis by (simp add: redraw_again redraw_done)
  qed
next
  case (Suc k)
  show ?case
  proof (cases "ma_p < bb_p")
    case True
    then show ?thesis by (simp add: redraw_done)
  next
    case False
    from Suc.prems have "ma_p < randint_value r (rng_tail g k)" by (simp add: rng_tail_def)
    from Suc.IH [of "rng_tail g" "randint_value r (g 0)"] this False assms(1)
    show ?thesis by (simp add: redraw_again)
  qed
qed

lemma stuck_trial:
  "trial df bf pf stuck_ranges g = None"
proof -
  have "redraw (3, 4) 5 (randint_value (3, 4) (rng_tail g 0)) (rng_tail (rng_tail g)) = None"
  proof (rule redraw_diverges)
    show "fst (3, 4 :: int) \<le> snd (3, 4 :: int)" by simp
    from randint_value_bounds(2) [of "(3, 4)" "rng_tail g 0"]
    show "randint_value (3, 4) (rng_tail g 0) \<le> 5" by simp
    show "\<forall>k. randint_value (3, 4) (rng_tail (rng_tail g) k) \<le> 5"
    proof
      fix k
      from randint_value_bounds(2) [of "(3, 4)" "rng_tail (rng_tail g) k"]
      show "randint_value (3, 4) (rng_tail (rng_tail g) k) \<le> 5" by simp
    qed
  qed
  then show ?thesis
    by (simp add: trial_def stuck_ranges_def randint_def randint_value_def)
qed

text \<open>
  Claim C4, as the specification states it, has the harness give up with a configuration
  error after a bounded number of attempts. With the fast period drawn from 5 to 5 and the
  slow period from 3 to 4, a single trial never returns, whatever the generator delivers.
\<close>

theorem unsatisfiable_ranges_counterexample:
  "sensitivity_analysis cross_series crossover_capability calculate_strategy_one_performance
     (Some stuck_ranges) 1 (\<lambda>k. k) = None"
  by (simp add: sensitivity_analysis_def stuck_trial)

lemma redraw_first_exceeding:
  assumes "fst r \<le> snd r"
  shows "bb_p \<le> ma_p \<Longrightarrow> ma_p < randint_value r (g k) \<Longrightarrow>
         (\<forall>j<k. randint_value r (g j) \<le> ma_p) \<Longrightarrow>
         redraw r ma_p bb_p g = Some (Inr (randint_value r (g k)), (\<lambda>j. g (Suc (k + j))))"
proof (induction k arbitrary: bb_p g)
  case 0
  from 0(1) assms
  have "redraw r ma_p bb_p g = redraw r ma_p (randint_value r (g 0)) (rng_tail g)"
    by (rule redraw_again)
  also from 0(2) have "\<dots> = Some (Inr (randint_value r (g 0)), rng_tail g)"
    by (rule redraw_done)
  finally show ?case by (simp add: rng_tail_def)
next
  case (Suc k)
  from Suc.prems(3) have first: "randint_value r (g 0) \<le> ma_p" by simp
  from Suc.prems(2) have hit: "ma_p < randint_value r (rng_tail g k)"
    by (simp add: rng_tail_def)
  from Suc.prems(3) have before: "\<forall>j<k. randint_value r (rng_tail g j) \<le> ma_p"
    by (simp add: rng_tail_def)
  from Suc.prems(1) assms
  have "redraw r ma_p bb_p g = redraw r ma_p (randint_value r (g 0)) (rng_tail g)"
    by (rule redraw_again)
  also from Suc.IH [of "randint_value r (g 0)" "rng_tail g"] first hit before
  have "\<dots> = Some (Inr (randint_value r (rng_tail g k)), (\<lambda>j. rng_tail g (Suc (k + j))))"
    by simp
  finally show ?case by (simp add: rng_tail_def)
qed

text \<open>
  Claim C4, amended. The re-draw loop has no bound on its attempts and raises no
  configuration error. Over a non-empty range of the slow period it fails to terminate
  exactly when the slow period drawn first and every re-draw are at most the fast period;
  so it never terminates when the maximum of the range does not exceed the fast period.
  Whenever it terminates it returns a slow period strictly greater than the fast one:
  the slow period drawn first, no number consumed, when that one is greater already, and
  otherwise the first re-draw that is greater, the generator left after that draw.
\<close>

theorem redraw_loop_is_unbounded:
  assumes "fst r \<le> snd r"
  shows "(redraw r ma_p bb_p g = None \<longleftrightarrow>
            bb_p \<le> ma_p \<and> (\<forall>k. randint_value r (g k) \<le> ma_p)) \<and>
         (snd r \<le> ma_p \<and> bb_p \<le> ma_p \<longrightarrow> redraw r ma_p bb_p g = None) \<and>
         (\<forall>y. redraw r ma_p bb_p g = Some y \<longrightarrow> (\<exists>v g'. y = (Inr v, g') \<and> ma_p < v)) \<and>
         (ma_p < bb_p \<longrightarrow> redraw r ma_p bb_p g = Some (Inr bb_p, g)) \<and>
         (\<forall>k. bb_p \<le> ma_p \<and> ma_p < randint_value r (g k) \<and>
               (\<forall>j<k. randint_value r (g j) \<le> ma_p) \<longrightarrow>
               redraw r ma_p bb_p g =
                 Some (Inr (randint_value r (g k)), (\<lambda>j. g (Suc (k + j)))))"
proof -
  have diverges: "redraw r ma_p bb_p g = None \<longleftrightarrow>
      bb_p \<le> ma_p \<and> (\<forall>k. randint_value r (g k) \<le> ma_p)"
  proof
    assume none: "redraw r ma_p bb_p g = None"
    have "bb_p \<le> ma_p"
    proof (rule ccontr)
      assume "\<not> bb_p \<le> ma_p"
      then have "redraw r ma_p bb_p g = Some (Inr bb_p, g)" by (simp add: redraw_done)
      with none show False by simp
    qed
    moreover have "\<forall>k. randint_value r (g k) \<le> ma_p"
    proof (rule ccontr)
      assume "\<not> (\<forall>k. randint_value r (g k) \<le> ma_p)"
      then obtain k where "ma_p < randint_value r (g k)" by (auto simp: not_le)
      from redraw_returns [of r ma_p g k bb_p] assms this none show False by auto
    qed
    ultimately show "bb_p \<le> ma_p \<and> (\<forall>k. randint_value r (g k) \<le> ma_p)" by simp
  next
    assume "bb_p \<le> ma_p \<and> (\<forall>k. randint_value r (g k) \<le> ma_p)"
    with assms show "redraw r ma_p bb_p g = None" by (simp add: redraw_diverges)
  qed
  have stuck: "redraw r ma_p bb_p g = None" if a: "snd r \<le> ma_p \<and> bb_p \<le> ma_p"
  proof -
    have "\<forall>k. randint_value r (g k) \<le> ma_p"
    proof
      fix k
      from randint_value_bounds(2) [OF assms, of "g k"] a show "randint_value r (g k) \<le> ma_p"
        by linarith
    qed
    with assms a show ?thesis by (simp add: redraw_diverges)
  qed
  have greater: "\<exists>v g'. y = (Inr v, g') \<and> ma_p < v" if "redraw r ma_p bb_p g = Some y" for y
    using redraw_Some [OF that] assms by (cases y; cases "fst y") auto
  have at_once: "redraw r ma_p bb_p g = Some (Inr bb_p, g)" if "ma_p < bb_p"
    using that by (rule redraw_done)
  have first: "redraw r ma_p bb_p g = Some (Inr (randint_value r (g k)), (\<lambda>j. g (Suc (k + j))))"
    if "bb_p \<le> ma_p \<and> ma_p < randint_value r (g k) \<and> (\<forall>j<k. randint_value r (g j) \<le> ma_p)"
    for k
    using that redraw_first_exceeding [OF assms, of bb_p ma_p g k] by blast
  from diverges stuck greater at_once first show ?thesis by blast
qed

text \<open>
  Instances: the range 3 to 4 against the fast period 5, where the loop runs forever, and
  the range 3 to 12 against the fast period 4, where the draws are 3, 4, 5 and the loop
  returns 5, the third of them.
\<close>

theorem redraw_loop_is_unbounded_witness:
  "fst (3, 4 :: int) \<le> snd (3, 4 :: int) \<and> redraw (3, 4) 5 3 (\<lambda>k. k) = None \<and>
   fst (3, 12 :: int) \<le> snd (3, 12 :: int) \<and> redraw (3, 12) 4 4 (\<lambda>k. k) \<noteq> None \<and>
   redraw (3, 12) 4 4 (\<lambda>k. k) = Some (Inr 5, (\<lambda>j. Suc (2 + j)))"
proof -
  have a: "fst (3, 4 :: int) \<le> snd (3, 4 :: int)" by simp
  have b: "fst (3, 12 :: int) \<le> snd (3, 12 :: int)" by simp
  have v: "randint_value (3, 12) 0 = 3" "randint_value (3, 12) (Suc 0) = 4"
    "randint_value (3, 12) 2 = 5"
    by (simp_all add: randint_value_def)
  have before: "\<forall>j<2. randint_value (3, 12) ((\<lambda>k. k) j) \<le> (4::int)"
  proof (intro allI impI)
    fix j :: nat
    assume "j < 2"
    then have "j = 0 \<or> j = Suc 0" by auto
    with v show "randint_value (3, 12) ((\<lambda>k. k) j) \<le> (4::int)" by auto
  qed
  from redraw_loop_is_unbounded [OF b, of 4 4 "\<lambda>k. k"]
  have "\<forall>k. (4::int) \<le> 4 \<and> 4 < randint_value (3, 12) k \<and>
            (\<forall>j<k. randint_value (3, 12) j \<le> 4) \<longrightarrow>
            redraw (3, 12) 4 4 (\<lambda>k. k) =
              Some (Inr (randint_value (3, 12) k), (\<lambda>j. Suc (k + j)))"
    by blast
  from this [rule_format, of 2] before v(3)
  have ret: "redraw (3, 12) 4 4 (\<lambda>k. k) = Some (Inr 5, (\<lambda>j. Suc (2 + j)))"
    by simp
  from redraw_loop_is_unbounded [OF a, of 5 3 "\<lambda>k. k"]
  have none: "redraw (3, 4) 5 3 (\<lambda>k. k) = None" by simp
  from none ret show ?thesis by simp
qed

subsection \<open>The rows of the result\<close>

lemma trial_row:
  assumes "trial df bf pf pr g = Some (Inr row, g')"
  shows "ma_period row < bb_period row"
proof -
  obtain r1 g1 where d1: "randint (ma_period_range pr) g = (r1, g1)" by (cases "randint (ma_period_range pr) g")
  show ?thesis
  proof (cases r1)
    case (Inl e)
    with assms d1 show ?thesis by (simp add: trial_def)
  next
    case ma: (Inr ma_p)
    obtain r2 g2 where d2: "randint (bb_period_range pr) g1 = (r2, g2)"
      by (cases "randint (bb_period_range pr) g1")
    show ?thesis
    proof (cases r2)
      case (Inl e)
      with assms d1 ma d2 show ?thesis by (simp add: trial_def)
    next
      case bb0: (Inr bb_p0)
      show ?thesis
      proof (cases "redraw (bb_period_range pr) ma_p bb_p0 g2")
        case None
        with assms d1 ma d2 bb0 show ?thesis by (simp add: trial_def)
      next
        case (Some y)
        obtain r3 g3 where y: "y = (r3, g3)" by (cases y)
        show ?thesis
        proof (cases r3)
          case (Inl e)
          with assms d1 ma d2 bb0 Some y show ?thesis by (simp add: trial_def)
        next
          case (Inr bb_p)
          with redraw_Some [OF Some] y have lt: "ma_p < bb_p" by simp
          from assms d1 ma d2 bb0 Some y Inr
          have "ma_period row = ma_p \<and> bb_period row = bb_p"
            by (auto simp: trial_def split: prod.splits sum.splits option.splits)
          with lt show ?thesis by simp
        qed
      qed
    qed
  qed
qed

lemma trials_rows:
  assumes "trials n df bf pf pr g acc = Some (Inr rows)"
    and "\<forall>r \<in> set acc. ma_period r < bb_period r"
  shows "\<forall>r \<in> set rows. ma_period r < bb_period r"
  using assms
proof (induction n arbitrary: g acc)
  case 0
  then show ?case by simp
next
  case (Suc n)
  show ?case
  proof (cases "trial df bf pf pr g")
    case None
    with Suc.prems(1) show ?thesis by simp
  next
    case (Some y)
    obtain res g' where y: "y = (res, g')" by (cases y)
    show ?thesis
    proof (cases res)
      case (Inl e)
      with Suc.prems(1) Some y show ?thesis by simp
    next
      case (Inr row)
      with Some y have t: "trial df bf pf pr g = Some (Inr row, g')" by simp
      with Suc.prems(1) have run: "trials n df bf pf pr g' (acc @ [row]) = Some (Inr rows)"
        by simp
      from trial_row [OF t] Suc.prems(2)
      have "\<forall>r \<in> set (acc @ [row]). ma_period r < bb_period r" by auto
      with Suc.IH [OF run] show ?thesis by simp
    qed
  qed
qed

text \<open>
  Claim C9. In every row of a table that the harness returns, the recorded slow period
  is strictly greater than the recorded fast period.
\<close>

theorem slow_period_exceeds_fast_period:
  assumes "sensitivity_analysis df_original backtest_func performance_func ranges iterations g =
             Some (Inr rows)"
  shows "\<forall>r \<in> set rows. ma_period r < bb_period r"
  using assms unfolding sensitivity_analysis_def
  by (rule trials_rows) simp

lemma crossover_metrics:
  assumes "2 \<le> length df"
  shows "\<exists>ps perf. position_col (backtest_strategy_two df s l) = Some ps \<and>
           calculate_strategy_one_performance
             (backtest_strategy_two df s l\<lparr>entry_col := Some (position_changes 1 0 ps),
                                             exit_col := Some (position_changes 0 1 ps)\<rparr>) = Inr perf"
proof -
  let ?t = "backtest_strategy_two df s l"
  from backtest_two_full_trajectory [OF assms] have "full_trajectory df ?t" .
  then obtain rs cs ps where cols: "ret_col ?t = Some rs" "cus_col ?t = Some cs"
      "position_col ?t = Some ps" "length cs = length rs"
    by (auto simp: full_trajectory_def split: option.splits)
  let ?u = "?t\<lparr>entry_col := Some (position_changes 1 0 ps),
               exit_col := Some (position_changes 0 1 ps)\<rparr>"
  from cols have "ret_col ?u = Some rs" "cus_col ?u = Some cs" by simp_all
  from calculate_on_columns [OF this cols(4)] cols(3) show ?thesis by blast
qed

lemma trial_crossover:
  assumes "randint (ma_period_range pr) g = (Inr ma_p, g1)"
    and "randint (bb_period_range pr) g1 = (Inr bb_p0, g2)"
    and "redraw (bb_period_range pr) ma_p bb_p0 g2 = Some (Inr bb_p, g3)"
    and "2 \<le> length df"
  shows "\<exists>row. trial df crossover_capability calculate_strategy_one_performance pr g =
                 Some (Inr row, rng_tail (rng_tail g3)) \<and>
               ma_period row = ma_p \<and> bb_period row = bb_p"
proof -
  from crossover_metrics [OF assms(4), of ma_p bb_p] obtain ps perf
    where "position_col (backtest_strategy_two df ma_p bb_p) = Some ps"
      and "calculate_strategy_one_performance
             (backtest_strategy_two df ma_p bb_p\<lparr>entry_col := Some (position_changes 1 0 ps),
                                             exit_col := Some (position_changes 0 1 ps)\<rparr>) = Inr perf"
    by blast
  with assms(1-3) show ?thesis
    by (simp add: trial_def uniform_def crossover_capability_def)
qed

text \<open>
  An instance: two trials on strategy two and the metrics engine, with re-draws in both.
\<close>

theorem slow_period_exceeds_fast_period_witness:
  "\<exists>rows. sensitivity_analysis cross_series crossover_capability
            calculate_strategy_one_performance (Some narrow_ranges) 2 (\<lambda>k. k div 2) =
              Some (Inr rows) \<and>
          map (\<lambda>r. (ma_period r, bb_period r)) rows = [(1, 2), (1, 2)] \<and>
          (\<forall>r \<in> set rows. ma_period r < bb_period r)"
proof -
  let ?g = "\<lambda>k::nat. k div 2"
  let ?g1 = "rng_tail ?g"
  let ?g2 = "rng_tail ?g1"
  let ?g3 = "rng_tail ?g2"
  let ?g5 = "rng_tail (rng_tail ?g3)"
  let ?g6 = "rng_tail ?g5"
  let ?g7 = "rng_tail ?g6"
  let ?g9 = "rng_tail (rng_tail ?g7)"
  let ?g11 = "rng_tail (rng_tail ?g9)"
  have len: "2 \<le> length cross_series" by (simp add: cross_series_def)
  have r1: "randint (1, 2) ?g = (Inr 1, ?g1)"
    by (simp add: randint_def randint_value_def)
  have r2: "randint (1, 3) ?g1 = (Inr 1, ?g2)"
    by (simp add: randint_def randint_value_def rng_tail_def)
  have "redraw (1, 3) 1 1 ?g2 = redraw (1, 3) 1 (randint_value (1, 3) (?g2 0)) ?g3"
    by (rule redraw_again) simp_all
  also have "randint_value (1, 3) (?g2 0) = 2"
    by (simp add: randint_value_def rng_tail_def)
  also have "redraw (1, 3) 1 2 ?g3 = Some (Inr 2, ?g3)"
    by (rule redraw_done) simp
  finally have r3: "redraw (1, 3) 1 1 ?g2 = Some (Inr 2, ?g3)" .
  from trial_crossover [of narrow_ranges ?g 1 ?g1 1 ?g2 2 ?g3 cross_series] r1 r2 r3 len
  obtain row1 where row1: "trial cross_series crossover_capability
      calculate_strategy_one_performance narrow_ranges ?g = Some (Inr row1, ?g5)"
      "ma_period row1 = 1" "bb_period row1 = 2"
    by (auto simp: narrow_ranges_def)
  have s1: "randint (1, 2) ?g5 = (Inr 1, ?g6)"
    by (simp add: randint_def randint_value_def rng_tail_def)
  have s2: "randint (1, 3) ?g6 = (Inr 1, ?g7)"
    by (simp add: randint_def randint_value_def rng_tail_def)
  have "redraw (1, 3) 1 1 ?g7 = redraw (1, 3) 1 (randint_value (1, 3) (?g7 0)) (rng_tail ?g7)"
    by (rule redraw_again) simp_all
  also have "randint_value (1, 3) (?g7 0) = 1"
    by (simp add: randint_value_def rng_tail_def)
  also have "redraw (1, 3) 1 1 (rng_tail ?g7) =
      redraw (1, 3) 1 (randint_value (1, 3) (rng_tail ?g7 0)) ?g9"
    by (rule redraw_again) simp_all
  also have "randint_value (1, 3) (rng_tail ?g7 0) = 2"
    by (simp add: randint_value_def rng_tail_def)
  also have "redraw (1, 3) 1 2 ?g9 = Some (Inr 2, ?g9)"
    by (rule redraw_done) simp
  finally have s3: "redraw (1, 3) 1 1 ?g7 = Some (Inr 2, ?g9)" .
  from trial_crossover [of narrow_ranges ?g5 1 ?g6 1 ?g7 2 ?g9 cross_series] s1 s2 s3 len
  obtain row2 where row2: "trial cross_series crossover_capability
      calculate_strategy_one_performance narrow_ranges ?g5 = Some (Inr row2, ?g11)"
      "ma_period row2 = 1" "bb_period row2 = 2"
    by (auto simp: narrow_ranges_def)
  have run: "sensitivity_analysis cross_series crossover_capability
            calculate_strategy_one_performance (Some narrow_ranges) 2 ?g = Some (Inr [row1, row2])"
    using row1(1) row2(1) by (simp add: sensitivity_analysis_def numeral_2_eq_2)
  from slow_period_exceeds_fast_period [OF run] run row1 row2 show ?thesis by simp
qed

end
